theory Spec2Isabelle
  imports Main "HOL-Library.Sublist" "HOL-Library.AList"
begin

section \<open>JavaScript strings\<close>

text \<open>
  A JavaScript string is modelled as a \<^typ>\<open>string\<close>: a list of characters, each one
  code unit in the range 0..255 (ASCII, and Latin-1 for the accented letters of the
  Portuguese messages of the services). \<open>length\<close> is the JavaScript \<open>.length\<close>. Code
  units above 255 are outside the model.
\<close>

fun startsWith :: "string \<Rightarrow> string \<Rightarrow> bool" where
  "startsWith s [] = True"
| "startsWith [] (p # ps) = False"
| "startsWith (c # cs) (p # ps) = (c = p \<and> startsWith cs ps)"

fun includesStr :: "string \<Rightarrow> string \<Rightarrow> bool" where
  "includesStr [] sub = (sub = [])"
| "includesStr (c # cs) sub = (startsWith (c # cs) sub \<or> includesStr cs sub)"

text \<open>
  \<open>String.prototype.toUpperCase\<close> on the modelled range: the letters a..z and the
  Latin-1 letters 0xE0..0xFE (without the division sign 0xF7) are mapped to the code
  unit 32 below, and the sharp s (0xDF) to \<open>SS\<close>. The micro sign (0xB5) and the y with
  diaeresis (0xFF) are the two code units of the range whose upper-case form (U+039C,
  U+0178) lies above 255: they are kept as they are. The services only search an
  upper-cased string for ASCII texts, and neither those two code units nor their
  upper-case forms occur in an ASCII text.
\<close>

definition lowerLetters :: string where
  "lowerLetters =
     ''abcdefghijklmnopqrstuvwxyz'' @
     [CHR 0xE0, CHR 0xE1, CHR 0xE2, CHR 0xE3, CHR 0xE4, CHR 0xE5, CHR 0xE6, CHR 0xE7,
      CHR 0xE8, CHR 0xE9, CHR 0xEA, CHR 0xEB, CHR 0xEC, CHR 0xED, CHR 0xEE, CHR 0xEF,
      CHR 0xF0, CHR 0xF1, CHR 0xF2, CHR 0xF3, CHR 0xF4, CHR 0xF5, CHR 0xF6, CHR 0xF8,
      CHR 0xF9, CHR 0xFA, CHR 0xFB, CHR 0xFC, CHR 0xFD, CHR 0xFE]"

definition upperLetters :: string where
  "upperLetters =
     ''ABCDEFGHIJKLMNOPQRSTUVWXYZ'' @
     [CHR 0xC0, CHR 0xC1, CHR 0xC2, CHR 0xC3, CHR 0xC4, CHR 0xC5, CHR 0xC6, CHR 0xC7,
      CHR 0xC8, CHR 0xC9, CHR 0xCA, CHR 0xCB, CHR 0xCC, CHR 0xCD, CHR 0xCE, CHR 0xCF,
      CHR 0xD0, CHR 0xD1, CHR 0xD2, CHR 0xD3, CHR 0xD4, CHR 0xD5, CHR 0xD6, CHR 0xD8,
      CHR 0xD9, CHR 0xDA, CHR 0xDB, CHR 0xDC, CHR 0xDD, CHR 0xDE]"

definition upperChar :: "char \<Rightarrow> string" where
  "upperChar c =
     (if c = CHR 0xDF then ''SS''
      else case map_of (zip lowerLetters upperLetters) c of
             Some u \<Rightarrow> [u]
           | None \<Rightarrow> [c])"

definition toUpperCase :: "string \<Rightarrow> string" where
  "toUpperCase s = concat (map upperChar s)"

text \<open>
  \<open>String.prototype.trim\<close> removes white space and line terminators at both ends:
  in the modelled range these are TAB, LF, VT, FF, CR, SPACE and NBSP.
\<close>

definition isWhiteSpace :: "char \<Rightarrow> bool" where
  "isWhiteSpace c = (c \<in> set [CHR 0x09, CHR 0x0A, CHR 0x0B, CHR 0x0C, CHR 0x0D, CHR 0x20, CHR 0xA0])"

definition trim :: "string \<Rightarrow> string" where
  "trim s = rev (dropWhile isWhiteSpace (rev (dropWhile isWhiteSpace s)))"

section \<open>services/bigquery.js: the query validator\<close>

definition forbiddenCommands :: "string list" where
  "forbiddenCommands =
     [''DROP'', ''DELETE'', ''UPDATE'', ''INSERT'', ''ALTER'', ''CREATE'', ''TRUNCATE'',
      ''GRANT'', ''REVOKE'']"

text \<open>
  The \<open>for (const cmd of forbiddenCommands)\<close> loop of \<open>validateQuery\<close>, which returns
  \<open>false\<close> at the first command found in the upper-cased statement: the result here is
  whether the loop returned.
\<close>

fun containsForbidden :: "string \<Rightarrow> string list \<Rightarrow> bool" where
  "containsForbidden upperSQL [] = False"
| "containsForbidden upperSQL (cmd # cmds) =
     (if includesStr upperSQL cmd then True else containsForbidden upperSQL cmds)"

definition validateQuery :: "string \<Rightarrow> bool" where
  "validateQuery sql =
     (let upperSQL = toUpperCase sql in
      if containsForbidden upperSQL forbiddenCommands then False
      else if \<not> startsWith (trim upperSQL) ''SELECT'' then False
      else True)"

text \<open>
  The validator as the specification words it (\<open>isSafe\<close>): none of the nine forbidden
  keywords is a substring of the case-normalised statement, and the trimmed,
  case-normalised statement starts with SELECT. Substring and prefix are the library's
  \<^const>\<open>sublist\<close> and \<^const>\<open>prefix\<close>.
\<close>

definition isSafe_spec :: "string \<Rightarrow> bool" where
  "isSafe_spec s =
     ((\<forall>kw \<in> {''DROP'', ''DELETE'', ''UPDATE'', ''INSERT'', ''ALTER'', ''CREATE'', ''TRUNCATE'',
                ''GRANT'', ''REVOKE''}. \<not> sublist kw (toUpperCase s))
      \<and> prefix ''SELECT'' (trim (toUpperCase s)))"

text \<open>
  \<open>s.replace(/pat/g, '')\<close> for a literal pattern: every occurrence found scanning from
  the left is removed. \<open>stripAllNL\<close> is the same for the pattern followed by an optional
  line feed (\<open>/pat\n?/g\<close>), and \<open>stripFirst\<close> is \<open>s.replace('pat', '')\<close>, which removes
  the first occurrence only.
\<close>

function stripAll :: "string \<Rightarrow> string \<Rightarrow> string" where
  "stripAll pat [] = []"
| "stripAll pat (c # cs) =
     (if pat \<noteq> [] \<and> startsWith (c # cs) pat then stripAll pat (drop (length pat) (c # cs))
      else c # stripAll pat cs)"
  by pat_completeness auto
termination
  by (relation "measure (\<lambda>(pat, s). length s)") auto

function stripAllNL :: "string \<Rightarrow> string \<Rightarrow> string" where
  "stripAllNL pat [] = []"
| "stripAllNL pat (c # cs) =
     (if pat \<noteq> [] \<and> startsWith (c # cs) pat then
        (let after = drop (length pat) (c # cs) in
         if startsWith after [CHR 0x0A] then stripAllNL pat (drop 1 after)
         else stripAllNL pat after)
      else c # stripAllNL pat cs)"
  by pat_completeness auto
termination
  by (relation "measure (\<lambda>(pat, s). length s)") auto

fun stripFirst :: "string \<Rightarrow> string \<Rightarrow> string" where
  "stripFirst pat [] = []"
| "stripFirst pat (c # cs) =
     (if startsWith (c # cs) pat then drop (length pat) (c # cs) else c # stripFirst pat cs)"

text \<open>
  A plain JavaScript object used as a dictionary is the list of its own enumerable
  properties in the order in which \<open>Object.keys\<close>, \<open>Object.entries\<close> and
  \<open>JSON.stringify\<close> list them: the keys that are array indices (canonical decimal
  numerals up to \<open>2^32 - 2\<close>) first, in ascending numeric order, then the other keys in
  the order of their creation. The assignment \<open>obj[key] = value\<close> replaces the value of a
  key that is present and creates the property otherwise; for the key \<open>__proto__\<close> it
  runs the setter inherited from \<open>Object.prototype\<close>, which changes the prototype of
  the object and creates no own property.
\<close>

definition proto_key :: string where
  "proto_key = ''__proto__''"

definition digitValue :: "char \<Rightarrow> nat option" where
  "digitValue c = map_of (zip ''0123456789'' [0, 1, 2, 3, 4, 5, 6, 7, 8, 9]) c"

fun digitsValue :: "nat \<Rightarrow> string \<Rightarrow> nat option" where
  "digitsValue acc [] = Some acc"
| "digitsValue acc (c # cs) =
     (case digitValue c of
        None \<Rightarrow> None
      | Some d \<Rightarrow> digitsValue (10 * acc + d) cs)"

definition arrayIndex :: "string \<Rightarrow> nat option" where
  "arrayIndex key =
     (case key of
        [] \<Rightarrow> None
      | c # cs \<Rightarrow>
          if c = CHR ''0'' \<and> cs \<noteq> [] then None
          else (case digitsValue 0 key of
                  None \<Rightarrow> None
                | Some n \<Rightarrow> if n \<le> 4294967294 then Some n else None))"

fun insertIndexed :: "nat \<Rightarrow> string \<Rightarrow> 'v \<Rightarrow> (string \<times> 'v) list \<Rightarrow> (string \<times> 'v) list" where
  "insertIndexed n key v [] = [(key, v)]"
| "insertIndexed n key v (p # ps) =
     (case arrayIndex (fst p) of
        None \<Rightarrow> (key, v) # p # ps
      | Some m \<Rightarrow> if m < n then p # insertIndexed n key v ps else (key, v) # p # ps)"

definition assignProperty :: "string \<Rightarrow> 'v \<Rightarrow> (string \<times> 'v) list \<Rightarrow> (string \<times> 'v) list" where
  "assignProperty key v obj =
     (if key = proto_key then obj
      else if key \<in> fst ` set obj then AList.update key v obj
      else (case arrayIndex key of
              None \<Rightarrow> obj @ [(key, v)]
            | Some n \<Rightarrow> insertIndexed n key v obj))"

text \<open>The accented letters of the messages, as Latin-1 code units.\<close>

abbreviation a_acute :: string where "a_acute \<equiv> [CHR 0xE1]"
abbreviation a_tilde :: string where "a_tilde \<equiv> [CHR 0xE3]"
abbreviation c_cedilla :: string where "c_cedilla \<equiv> [CHR 0xE7]"
abbreviation i_acute :: string where "i_acute \<equiv> [CHR 0xED]"
abbreviation o_tilde :: string where "o_tilde \<equiv> [CHR 0xF5]"

section \<open>Values, errors and effects\<close>

text \<open>
  Every \<open>throw\<close> of the services throws \<open>new Error(message)\<close>, and the handlers read
  \<open>error.message\<close> only: a thrown error is its message. An \<open>async\<close> function is a
  function of the world that returns either the error it threw (\<open>Inl\<close>) or its value
  (\<open>Inr\<close>), and the world it leaves. Logging (\<open>console.log\<close>, \<open>console.error\<close>) has no
  effect on the world and is left out.
\<close>

type_synonym row = string
  \<comment> \<open>a result row of the warehouse, kept as its compact JSON text\<close>

definition JSON_stringify :: "row list \<Rightarrow> string" where
  \<comment> \<open>\<open>JSON.stringify\<close> of an array: the elements between brackets, separated by commas\<close>
  "JSON_stringify rows =
     ''['' @ (case rows of [] \<Rightarrow> [] | r # rs \<Rightarrow> r @ concat (map (\<lambda>x. '','' @ x) rs)) @ '']''"

datatype json =
    JNull
  | JBool bool
  | JNum string
  | JStr string
  | JArr "json list"
  | JObj "(string \<times> json) list"

datatype 'a field = Absent | Null | Val 'a
  \<comment> \<open>a property of a returned object: not set, \<open>null\<close>, or a value\<close>

record meta_field =
  mf_name :: string
  mf_type :: string
  mf_mode :: "string option"
  mf_description :: "string option"

record field_summary =
  f_name :: string
  f_type :: string
  f_mode :: "string option"
  f_description :: string

record table_schema =
  tableName :: string
  table_fields :: "field_summary list"

record schema =
  dataset :: "string option"
  project :: "string option"
  tables :: "(string \<times> table_schema) list"

record compact_schema =
  c_dataset :: "string option"
  c_project :: "string option"
  c_tables_available :: "string list option"
  c_tables :: "(string \<times> (string \<times> string) list) list"

record model_info =
  mi_name :: string
  supportedGenerationMethods :: "string list"

text \<open>
  A request to the LLM service: the model name and the prompt. Each prompt of the
  services is a fixed text around the values kept here; the suffix \<open>v1\<close> marks the
  prompts of the earlier revision of \<open>services/gemini.js\<close> (the one without
  \<open>getModelName\<close>).
\<close>

datatype prompt =
    Ok_prompt
  | SQL_prompt compact_schema string
  | Format_prompt string "row list"
  | General_prompt string
  | Classify_prompt string
  | SQL_prompt_v1 compact_schema string
  | Format_prompt_v1 string "row list"
  | General_prompt_v1 string
  | Classify_prompt_v1 string

datatype llm_request = Request string prompt

datatype outcome_type = General | Data | Error

record outcome =
  o_success :: bool
  o_message :: string
  o_sql :: "string field"
  o_data :: "row list field"
  o_type :: "outcome_type field"
  o_error :: "string field"

text \<open>
  The world: the environment variables, the module-level variables of the three
  modules, the clock and \<open>JSON.parse\<close> of the runtime, and the external services. A
  service answers a call as a function of the number of calls made before and of the
  request, so that any behaviour of a service over a run is one such function.
\<close>

record world =
  GEMINI_MODEL :: "string option"
  GEMINI_API_KEY :: "string option"
  BIGQUERY_LOCATION :: "string option"
  BIGQUERY_DATASET :: "string option"
  GCP_PROJECT_ID :: "string option"
  bigquery :: bool
  credentialsConfigured :: bool
  cachedModelName :: "string option"
  cacheTimestamp :: "int option"
  cachedSchema :: "schema option"
  schemaLastUpdated :: "int option"
  clock :: "nat \<Rightarrow> int"
  ticks :: nat
  JSON_parse :: "string \<Rightarrow> string + json"
  gemini :: "nat \<Rightarrow> llm_request \<Rightarrow> string + string"
  gemini_calls :: nat
  gemini_listModels :: "(string + model_info list) option"
  warehouse :: "nat \<Rightarrow> string \<Rightarrow> string \<Rightarrow> string + row list"
  queries :: "string list"
  dataset_getTables :: "nat \<Rightarrow> string + string list"
  getTables_calls :: nat
  table_getMetadata :: "nat \<Rightarrow> string \<Rightarrow> string + meta_field list"
  getMetadata_calls :: nat

type_synonym 'a io = "world \<Rightarrow> (string + 'a) \<times> world"

definition ret :: "'a \<Rightarrow> 'a io" where
  "ret x = (\<lambda>w. (Inr x, w))"

definition thr :: "string \<Rightarrow> 'a io" where
  "thr e = (\<lambda>w. (Inl e, w))"

definition bnd :: "'a io \<Rightarrow> ('a \<Rightarrow> 'b io) \<Rightarrow> 'b io" where
  "bnd m f = (\<lambda>w. case m w of (Inl e, w') \<Rightarrow> (Inl e, w') | (Inr x, w') \<Rightarrow> f x w')"

definition try_catch :: "'a io \<Rightarrow> (string \<Rightarrow> 'a io) \<Rightarrow> 'a io" where
  "try_catch m h = (\<lambda>w. case m w of (Inl e, w') \<Rightarrow> h e w' | (Inr x, w') \<Rightarrow> (Inr x, w'))"

definition Date_now :: "world \<Rightarrow> int \<times> world" where
  "Date_now w = (clock w (ticks w), w\<lparr>ticks := Suc (ticks w)\<rparr>)"

definition TypeError_null :: string where
  \<comment> \<open>the message of the \<open>TypeError\<close> raised by a property access on \<open>null\<close>\<close>
  "TypeError_null = ''Cannot read properties of null''"

section \<open>services/bigquery.js\<close>

text \<open>
  \<open>bigquery.query({query, location})\<close>: the warehouse call. The statement sent is
  appended to \<open>queries\<close>, the record of what has reached the warehouse.
\<close>

definition bigquery_query :: "string \<Rightarrow> string \<Rightarrow> row list io" where
  "bigquery_query sql location w =
     (warehouse w (length (queries w)) sql location, w\<lparr>queries := queries w @ [sql]\<rparr>)"

definition executeQuery_catch :: "string \<Rightarrow> row list io" where
  "executeQuery_catch error =
     (if includesStr error ''Not found: Table'' then
        thr (''Tabela n'' @ a_tilde @ ''o encontrada no BigQuery. Verifique o nome da tabela.'')
      else if includesStr error ''Syntax error'' then
        thr ''Erro de sintaxe na query SQL. Por favor, reformule sua pergunta.''
      else if includesStr error ''Permission denied'' \<or> includesStr error ''Access Denied'' then
        thr (''Sem permiss'' @ a_tilde @ ''o para acessar os dados. Verifique as credenciais e permiss''
             @ o_tilde @ ''es da service account.'')
      else thr (''Erro ao consultar dados: '' @ error))"

definition notConfigured_message :: string where
  "notConfigured_message =
     ''BigQuery n'' @ a_tilde @ ''o est'' @ a_acute
     @ '' configurado. Verifique se as credenciais foram definidas nas vari'' @ a_acute
     @ ''veis de ambiente.''"

definition notAllowed_message :: string where
  "notAllowed_message =
     ''Query SQL n'' @ a_tilde @ ''o permitida. Apenas comandos SELECT s'' @ a_tilde
     @ ''o aceitos.''"

definition executeQuery_try :: "string \<Rightarrow> row list io" where
  "executeQuery_try sql w =
     (if \<not> bigquery w \<or> \<not> credentialsConfigured w then thr notConfigured_message w
      else if \<not> validateQuery sql then thr notAllowed_message w
      else
        (let location = (case BIGQUERY_LOCATION w of
                           None \<Rightarrow> ''southamerica-east1''
                         | Some l \<Rightarrow> if l = [] then ''southamerica-east1'' else l)
         in bnd (bigquery_query sql location) (\<lambda>rows. ret rows) w))"

definition executeQuery :: "string \<Rightarrow> row list io" where
  "executeQuery sql = try_catch (executeQuery_try sql) executeQuery_catch"

definition table_getMetadata_call :: "string \<Rightarrow> meta_field list io" where
  "table_getMetadata_call name w =
     (table_getMetadata w (getMetadata_calls w) name,
      w\<lparr>getMetadata_calls := Suc (getMetadata_calls w)\<rparr>)"

definition dataset_getTables_call :: "string list io" where
  "dataset_getTables_call w =
     (dataset_getTables w (getTables_calls w), w\<lparr>getTables_calls := Suc (getTables_calls w)\<rparr>)"

definition fieldSummary :: "meta_field \<Rightarrow> field_summary" where
  "fieldSummary field =
     \<lparr>f_name = mf_name field, f_type = mf_type field, f_mode = mf_mode field,
      f_description = (case mf_description field of
                         None \<Rightarrow> []
                       | Some d \<Rightarrow> d)\<rparr>"

definition getTableSchema :: "string \<Rightarrow> table_schema io" where
  "getTableSchema name =
     try_catch
       (\<lambda>w. if \<not> bigquery w then thr TypeError_null w
            else bnd (table_getMetadata_call name)
                   (\<lambda>metadata. ret \<lparr>tableName = name, table_fields = map fieldSummary metadata\<rparr>) w)
       (\<lambda>error. thr (''N'' @ a_tilde @ ''o foi poss'' @ i_acute @ ''vel obter informa''
                      @ c_cedilla @ o_tilde @ ''es da tabela '' @ name))"

definition listTables :: "string list io" where
  "listTables =
     try_catch
       (\<lambda>w. if \<not> bigquery w then thr TypeError_null w else dataset_getTables_call w)
       (\<lambda>error. thr (''N'' @ a_tilde @ ''o foi poss'' @ i_acute
                      @ ''vel listar as tabelas do dataset''))"

text \<open>
  The loop of \<open>getDatasetSchema\<close> over the table names: \<open>schemas[tableName] = ...\<close>
  inside its own \<open>try\<close>, whose handler only logs the table that is skipped.
\<close>

fun collectSchemas ::
  "string list \<Rightarrow> (string \<times> table_schema) list \<Rightarrow> world \<Rightarrow> (string \<times> table_schema) list \<times> world"
where
  "collectSchemas [] schemas w = (schemas, w)"
| "collectSchemas (name # names) schemas w =
     (case getTableSchema name w of
        (Inr s, w') \<Rightarrow> collectSchemas names (assignProperty name s schemas) w'
      | (Inl error, w') \<Rightarrow> collectSchemas names schemas w')"

definition getDatasetSchema :: "schema io" where
  "getDatasetSchema =
     try_catch
       (bnd listTables (\<lambda>tableNames w.
          case collectSchemas tableNames [] w of
            (schemas, w') \<Rightarrow>
              ret \<lparr>dataset = BIGQUERY_DATASET w', project = GCP_PROJECT_ID w',
                   tables = schemas\<rparr> w'))
       (\<lambda>error. thr (''N'' @ a_tilde @ ''o foi poss'' @ i_acute
                      @ ''vel obter o schema do dataset''))"

section \<open>routes/chat.js: the schema cache\<close>

definition SCHEMA_CACHE_DURATION :: int where
  "SCHEMA_CACHE_DURATION = 3600000"

definition getSchema_refresh :: "int \<Rightarrow> schema io" where
  "getSchema_refresh now w =
     (case getDatasetSchema w of
        (Inr fetched, w') \<Rightarrow> (Inr fetched, w'\<lparr>cachedSchema := Some fetched, schemaLastUpdated := Some now\<rparr>)
      | (Inl error, w') \<Rightarrow>
          (case cachedSchema w' of
             Some cached \<Rightarrow> (Inr cached, w')
           | None \<Rightarrow> (Inl error, w')))"

text \<open>
  \<open>cachedSchema && schemaLastUpdated && (now - schemaLastUpdated < SCHEMA_CACHE_DURATION)\<close>:
  an object is truthy, a number is truthy when it is not 0.
\<close>

definition getSchema :: "schema io" where
  "getSchema w =
     (case Date_now w of (now, w1) \<Rightarrow>
        (case (cachedSchema w1, schemaLastUpdated w1) of
           (Some cached, Some updated) \<Rightarrow>
             if updated \<noteq> 0 \<and> now - updated < SCHEMA_CACHE_DURATION then (Inr cached, w1)
             else getSchema_refresh now w1
         | _ \<Rightarrow> getSchema_refresh now w1))"

section \<open>services/gemini.js\<close>

text \<open>
  \<open>model.generateContent(...)\<close> followed by \<open>(await result.response).text()\<close>: one call
  of the LLM service, which answers with a text or fails.
\<close>

definition generateContent :: "llm_request \<Rightarrow> string io" where
  "generateContent request w =
     (gemini w (gemini_calls w) request, w\<lparr>gemini_calls := Suc (gemini_calls w)\<rparr>)"

definition CACHE_DURATION :: int where
  "CACHE_DURATION = 5 * 60 * 1000"

text \<open>
  The candidate list of \<open>getModelName\<close>; \<open>.filter(Boolean)\<close> drops the override
  \<open>process.env.GEMINI_MODEL\<close> when it is unset or empty.
\<close>

definition candidates :: "world \<Rightarrow> string list" where
  "candidates w =
     filter (\<lambda>c. c \<noteq> [])
       ((case GEMINI_MODEL w of None \<Rightarrow> [] | Some m \<Rightarrow> [m]) @
        [''gemini-2.5-flash-lite'', ''models/gemini-2.5-flash-lite'', ''gemini-1.5-pro'',
         ''gemini-1.5-flash'', ''gemini-pro'', ''gemini-1'', ''gemini-1.0'', ''models/gemini-1.0'',
         ''text-bison@001'', ''text-bison-001'', ''chat-bison@001'', ''chat-bison''])"

text \<open>
  The loop over the candidates: each one is probed with the prompt \<open>Ok\<close>; the first
  that answers is cached and returned, a failing one is skipped.
\<close>

fun tryCandidates :: "string list \<Rightarrow> world \<Rightarrow> string option \<times> world" where
  "tryCandidates [] w = (None, w)"
| "tryCandidates (candidate # rest) w =
     (case generateContent (Request candidate Ok_prompt) w of
        (Inr probe, w1) \<Rightarrow>
          (case Date_now w1 of (now, w2) \<Rightarrow>
             (Some candidate, w2\<lparr>cachedModelName := Some candidate, cacheTimestamp := Some now\<rparr>))
      | (Inl err, w1) \<Rightarrow> tryCandidates rest w1)"

definition noModel_message :: string where
  "noModel_message =
     ''Nenhum modelo Gemini compat'' @ i_acute @ ''vel encontrado. Verifique sua API Key.''"

text \<open>
  The last resort of \<open>getModelName\<close>: \<open>genAI.listModels\<close>, when the SDK has it
  (\<open>gemini_listModels\<close> is \<open>None\<close> when it has not), and the first listed model whose
  name contains \<open>gemini\<close> and which supports \<open>generateContent\<close>. A failure of the
  listing is logged and the final \<open>throw\<close> is reached.
\<close>

definition listModelsFallback :: "string io" where
  "listModelsFallback w =
     (case gemini_listModels w of
        Some (Inr modelsList) \<Rightarrow>
          (case find (\<lambda>m. includesStr (mi_name m) ''gemini''
                           \<and> ''generateContent'' \<in> set (supportedGenerationMethods m)) modelsList of
             Some fallback \<Rightarrow>
               (case Date_now w of (now, w1) \<Rightarrow>
                  (Inr (stripFirst ''models/'' (mi_name fallback)),
                   w1\<lparr>cachedModelName := Some (stripFirst ''models/'' (mi_name fallback)),
                      cacheTimestamp := Some now\<rparr>))
           | None \<Rightarrow> thr noModel_message w)
      | _ \<Rightarrow> thr noModel_message w)"

definition detectModel :: "string io" where
  "detectModel w =
     (case tryCandidates (candidates w) w of
        (Some selected, w1) \<Rightarrow> (Inr selected, w1)
      | (None, w1) \<Rightarrow> listModelsFallback w1)"

definition getModelName :: "string io" where
  "getModelName w =
     (case (cachedModelName w, cacheTimestamp w) of
        (Some cached, Some stamp) \<Rightarrow>
          if cached \<noteq> [] \<and> stamp \<noteq> 0 then
            (case Date_now w of (now, w1) \<Rightarrow>
               if now - stamp < CACHE_DURATION then (Inr cached, w1) else detectModel w1)
          else detectModel w
      | _ \<Rightarrow> detectModel w)"

text \<open>
  \<open>compactSchema\<close>, local to \<open>generateSQLQuery\<close>: the first 20 fields of every table,
  with their names and types. Its own \<open>try\<close> guards against a malformed schema object;
  on a \<^typ>\<open>schema\<close> nothing in it throws.
\<close>

definition compactTables ::
  "nat \<Rightarrow> (string \<times> table_schema) list \<Rightarrow> (string \<times> (string \<times> string) list) list"
where
  \<comment> \<open>the loop \<open>for (const [tableName, tableInfo] of Object.entries(inputSchema.tables))\<close>,
      which assigns \<open>out.tables[tableName]\<close>\<close>
  "compactTables maxFields entries =
     foldl (\<lambda>out (name, tableInfo).
              assignProperty name
                (map (\<lambda>f. (f_name f, f_type f)) (take maxFields (table_fields tableInfo))) out)
       [] entries"

definition compactSchema :: "schema \<Rightarrow> compact_schema" where
  "compactSchema inputSchema =
     \<lparr>c_dataset = Some (case dataset inputSchema of None \<Rightarrow> [] | Some d \<Rightarrow> d),
      c_project = None,
      c_tables_available = Some (map fst (tables inputSchema)),
      c_tables = compactTables 20 (tables inputSchema)\<rparr>"

definition cleanSQL :: "string \<Rightarrow> string" where
  \<comment> \<open>\<open>response.text().trim()\<close>, then \<open>.replace(/```sql/g, '').replace(/```/g, '').trim()\<close>\<close>
  "cleanSQL text = trim (stripAll ''```'' (stripAll ''```sql'' (trim text)))"

definition noValidQuery_message :: "string \<Rightarrow> string" where
  "noValidQuery_message sqlQuery =
     ''IA n'' @ a_tilde @ ''o conseguiu gerar query v'' @ a_acute @ ''lida: ''
     @ (if sqlQuery = [] then ''resposta vazia'' else sqlQuery)"

definition generateSQLQuery_try :: "string \<Rightarrow> schema \<Rightarrow> string io" where
  "generateSQLQuery_try userQuestion schema =
     bnd getModelName (\<lambda>modelName.
     bnd (generateContent (Request modelName (SQL_prompt (compactSchema schema) userQuestion)))
       (\<lambda>text.
          let sqlQuery = cleanSQL text in
          if sqlQuery = [] \<or> startsWith sqlQuery ''ERRO'' then
            thr (noValidQuery_message sqlQuery)
          else ret sqlQuery))"

definition generateSQLQuery :: "string \<Rightarrow> schema \<Rightarrow> string io" where
  "generateSQLQuery userQuestion schema =
     try_catch (generateSQLQuery_try userQuestion schema)
       (\<lambda>error. thr (''Erro ao gerar query: '' @ (if error = [] then ''desconhecido'' else error)))"

definition formatResponse :: "string \<Rightarrow> row list \<Rightarrow> string io" where
  "formatResponse userQuestion queryResults =
     try_catch
       (bnd getModelName (\<lambda>modelName.
        bnd (generateContent (Request modelName (Format_prompt userQuestion queryResults)))
          (\<lambda>text. ret (trim text))))
       (\<lambda>error. ret (''Aqui est'' @ a_tilde @ ''o os dados encontrados: ''
                      @ JSON_stringify queryResults))"

definition processGeneralQuestion :: "string \<Rightarrow> string io" where
  "processGeneralQuestion userQuestion =
     try_catch
       (bnd getModelName (\<lambda>modelName.
        bnd (generateContent (Request modelName (General_prompt userQuestion)))
          (\<lambda>text. ret (trim text))))
       (\<lambda>error. ret ''Desculpe, estou tendo dificuldades para responder agora.'')"

text \<open>
  \<open>json.requires_db\<close>: the property access throws on \<open>null\<close>, finds the property of an
  object, and gives \<open>undefined\<close> (\<open>None\<close>) on every other JSON value.
\<close>

definition requires_db :: "json \<Rightarrow> json option io" where
  "requires_db j =
     (case j of
        JNull \<Rightarrow> thr TypeError_null
      | JObj props \<Rightarrow> ret (map_of props ''requires_db'')
      | _ \<Rightarrow> ret None)"

definition requiresDatabaseQuery_try :: "string \<Rightarrow> bool io" where
  "requiresDatabaseQuery_try userQuestion =
     bnd getModelName (\<lambda>modelName.
     bnd (generateContent (Request modelName (Classify_prompt userQuestion))) (\<lambda>text.
     bnd (\<lambda>w. (JSON_parse w text, w)) (\<lambda>json.
     bnd (requires_db json) (\<lambda>v. ret (v = Some (JBool True))))))"

definition requiresDatabaseQuery :: "string \<Rightarrow> bool io" where
  "requiresDatabaseQuery userQuestion =
     try_catch (requiresDatabaseQuery_try userQuestion)
       (\<lambda>error. ret (10 < length userQuestion))"

definition processMessage_try ::
  "string \<Rightarrow> schema \<Rightarrow> (string \<Rightarrow> row list io) \<Rightarrow> outcome io"
where
  "processMessage_try userQuestion schema executeQueryFunc =
     bnd (requiresDatabaseQuery userQuestion) (\<lambda>needsDatabase.
       if \<not> needsDatabase then
         bnd (processGeneralQuestion userQuestion) (\<lambda>response.
           ret \<lparr>o_success = True, o_message = response, o_sql = Null, o_data = Null,
                o_type = Val General, o_error = Absent\<rparr>)
       else
         bnd (generateSQLQuery userQuestion schema) (\<lambda>sqlQuery.
           if startsWith sqlQuery ''ERRO'' then
             ret \<lparr>o_success = False, o_message = sqlQuery, o_sql = Absent, o_data = Absent,
                  o_type = Val Error, o_error = Absent\<rparr>
           else
             bnd (executeQueryFunc sqlQuery) (\<lambda>queryResults.
             bnd (formatResponse userQuestion queryResults) (\<lambda>formattedResponse.
               ret \<lparr>o_success = True, o_message = formattedResponse, o_sql = Val sqlQuery,
                    o_data = Val queryResults, o_type = Val Data, o_error = Absent\<rparr>))))"

definition processMessage_catch :: "string \<Rightarrow> outcome" where
  "processMessage_catch error =
     \<lparr>o_success = False, o_message = ''Erro interno ao processar IA.'', o_sql = Absent,
      o_data = Absent, o_type = Absent, o_error = Val error\<rparr>"

definition processMessage ::
  "string \<Rightarrow> schema \<Rightarrow> (string \<Rightarrow> row list io) \<Rightarrow> outcome io"
where
  "processMessage userQuestion schema executeQueryFunc =
     try_catch (processMessage_try userQuestion schema executeQueryFunc)
       (\<lambda>error. ret (processMessage_catch error))"

section \<open>services/gemini.js, earlier revision\<close>

text \<open>
  The revision of the module that always uses the model \<open>gemini-pro\<close>. Its functions
  carry the suffix \<open>v1\<close>.
\<close>

definition compactSchema_v1 :: "schema \<Rightarrow> compact_schema" where
  "compactSchema_v1 inputSchema =
     \<lparr>c_dataset = dataset inputSchema,
      c_project = project inputSchema,
      c_tables_available = None,
      c_tables = compactTables 8 (tables inputSchema)\<rparr>"

definition cleanSQL_v1 :: "string \<Rightarrow> string" where
  \<comment> \<open>\<open>response.text().trim()\<close>, then \<open>.replace(/```sql\n?/g, '').replace(/```\n?/g, '').trim()\<close>\<close>
  "cleanSQL_v1 text = trim (stripAllNL ''```'' (stripAllNL ''```sql'' (trim text)))"

definition generateSQLQuery_v1 :: "string \<Rightarrow> schema \<Rightarrow> string io" where
  "generateSQLQuery_v1 userQuestion schema =
     try_catch
       (\<lambda>w. if (case GEMINI_API_KEY w of None \<Rightarrow> True | Some k \<Rightarrow> k = []) then
              thr (''GEMINI_API_KEY n'' @ a_tilde @ ''o est'' @ a_acute
                   @ '' configurada. Configure no painel do Render.'') w
            else
              bnd (generateContent
                     (Request ''gemini-pro'' (SQL_prompt_v1 (compactSchema_v1 schema) userQuestion)))
                (\<lambda>text. ret (cleanSQL_v1 text)) w)
       (\<lambda>error. thr ''Erro ao processar sua pergunta com IA'')"

definition formatResponse_v1 :: "string \<Rightarrow> row list \<Rightarrow> string io" where
  "formatResponse_v1 userQuestion queryResults =
     try_catch
       (bnd (generateContent (Request ''gemini-pro'' (Format_prompt_v1 userQuestion queryResults)))
          (\<lambda>text. ret (trim text)))
       (\<lambda>error. thr ''Erro ao formatar resposta'')"


definition requiresDatabaseQuery_v1 :: "string \<Rightarrow> bool io" where
  "requiresDatabaseQuery_v1 userQuestion =
     try_catch
       (bnd (generateContent (Request ''gemini-pro'' (Classify_prompt_v1 userQuestion)))
          (\<lambda>text. let answer = toUpperCase (trim text) in ret (includesStr answer ''SIM'')))
       (\<lambda>error. ret True)"



section \<open>The outcome invariant of the specification\<close>

text \<open>
  \<open>success = false\<close> implies \<open>type = "error"\<close> or an error field is present; and
  \<open>type = "data"\<close> implies that \<open>sql\<close> and \<open>data\<close> hold values.
\<close>

definition hasValue :: "'a field \<Rightarrow> bool" where
  "hasValue f = (case f of Val v \<Rightarrow> True | _ \<Rightarrow> False)"

definition ChatOutcome_ok :: "outcome \<Rightarrow> bool" where
  "ChatOutcome_ok out =
     ((\<not> o_success out \<longrightarrow> o_type out = Val Error \<or> hasValue (o_error out))
      \<and> (o_type out = Val Data \<longrightarrow> hasValue (o_sql out) \<and> hasValue (o_data out)))"

section \<open>Predicates used in the statements\<close>

text \<open>An action that sends nothing to the warehouse.\<close>

definition keeps_queries :: "'a io \<Rightarrow> bool" where
  "keeps_queries m = (\<forall>w. queries (snd (m w)) = queries w)"

text \<open>An action that sends to the warehouse only statements accepted by the validator.\<close>

definition sends_validated :: "'a io \<Rightarrow> bool" where
  "sends_validated m =
     (\<forall>w. \<exists>sent. queries (snd (m w)) = queries w @ sent \<and> (\<forall>s \<in> set sent. validateQuery s))"

text \<open>
  What \<open>getTableSchema\<close> returns for a table when the client exists and the metadata
  call is the \<open>n\<close>-th one: the schema built from the metadata, or nothing when the call
  fails.
\<close>

definition fetchedSchema :: "world \<Rightarrow> nat \<Rightarrow> string \<Rightarrow> table_schema option" where
  "fetchedSchema w n name =
     (case table_getMetadata w n name of
        Inl e \<Rightarrow> None
      | Inr metadata \<Rightarrow> Some \<lparr>tableName = name, table_fields = map fieldSummary metadata\<rparr>)"

text \<open>The condition under which \<open>getSchema\<close> answers from its cache at time \<open>now\<close>.\<close>

definition schemaCacheValid :: "int \<Rightarrow> world \<Rightarrow> bool" where
  "schemaCacheValid now w =
     (case (cachedSchema w, schemaLastUpdated w) of
        (Some cached, Some updated) \<Rightarrow> updated \<noteq> 0 \<and> now - updated < SCHEMA_CACHE_DURATION
      | _ \<Rightarrow> False)"

section \<open>Example worlds\<close>

text \<open>
  A configured deployment with empty caches, in which the LLM service is down, the
  warehouse answers every query with no rows, and the dataset lists two tables, the
  metadata of the second of which cannot be read.
\<close>

definition example_world :: world where
  "example_world =
     \<lparr>GEMINI_MODEL = None, GEMINI_API_KEY = Some ''key'', BIGQUERY_LOCATION = None,
      BIGQUERY_DATASET = Some ''dados_formacao'', GCP_PROJECT_ID = Some ''projeto'',
      bigquery = True, credentialsConfigured = True,
      cachedModelName = None, cacheTimestamp = None,
      cachedSchema = None, schemaLastUpdated = None,
      clock = (\<lambda>n. 1000 + int n), ticks = 0,
      JSON_parse = (\<lambda>s. Inl ''Unexpected token''),
      gemini = (\<lambda>n request. Inl ''503 Service Unavailable''), gemini_calls = 0,
      gemini_listModels = None,
      warehouse = (\<lambda>n sql location. Inr []), queries = [],
      dataset_getTables = (\<lambda>n. Inr [''professores'', ''notas'']), getTables_calls = 0,
      table_getMetadata = (\<lambda>n name. if name = ''notas'' then Inl ''Not found'' else Inr []),
      getMetadata_calls = 0\<rparr>"

definition example_schema :: schema where
  "example_schema =
     \<lparr>dataset = Some ''dados_formacao'', project = Some ''projeto'', tables = []\<rparr>"

text \<open>The same deployment with an LLM service that answers every request with \<open>reply\<close>.\<close>

definition answering_world :: "string \<Rightarrow> world" where
  "answering_world reply = example_world\<lparr>gemini := (\<lambda>n request. Inr reply)\<rparr>"

text \<open>The same deployment without credentials: the client was not created.\<close>

definition unconfigured_world :: world where
  "unconfigured_world = example_world\<lparr>bigquery := False, credentialsConfigured := False\<rparr>"

text \<open>
  An LLM service that answers every request with a valid statement, and a warehouse
  that does not know the table.
\<close>

definition missing_table_world :: world where
  "missing_table_world =
     (answering_world ''SELECT * FROM t'')\<lparr>warehouse :=
        (\<lambda>n sql location. Inl ''Not found: Table t was not found in location US'')\<rparr>"


text \<open>
  The same deployment with a dataset in which a table is named \<open>__proto__\<close>: the
  metadata of \<open>professores\<close> and of \<open>__proto__\<close> can be read, that of \<open>notas\<close> cannot.
\<close>

definition proto_world :: world where
  "proto_world =
     example_world\<lparr>dataset_getTables := (\<lambda>n. Inr [''professores'', ''__proto__'', ''notas''])\<rparr>"

text \<open>
  An LLM service that answers every request with the empty JSON object, which
  \<open>JSON.parse\<close> reads as an object without properties.
\<close>

definition empty_object_world :: world where
  "empty_object_world =
     example_world\<lparr>gemini := (\<lambda>n request. Inr ''{}''),
                   JSON_parse := (\<lambda>s. if s = ''{}'' then Inr (JObj []) else Inl ''Unexpected token'')\<rparr>"

text \<open>An LLM service that answers the first request and fails from then on.\<close>

definition failing_after_probe_world :: world where
  "failing_after_probe_world =
     example_world\<lparr>gemini := (\<lambda>n request. if n = 0 then Inr ''Ok''
                                            else Inl ''503 Service Unavailable'')\<rparr>"

section \<open>Strings: the library view\<close>

lemma startsWith_prefix: "startsWith s p = prefix p s"
  by (induction s p rule: startsWith.induct) auto

lemma includesStr_sublist: "includesStr s sub = sublist sub s"
  by (induction s) (auto simp: startsWith_prefix sublist_Cons_right)

lemma containsForbidden_iff:
  "containsForbidden u cmds = (\<exists>cmd \<in> set cmds. sublist cmd u)"
  by (induction cmds) (auto simp: includesStr_sublist)

section \<open>Effects: composition and frame lemmas\<close>

lemma keeps_ret: "keeps_queries (ret x)"
  by (simp add: keeps_queries_def ret_def)

lemma keeps_thr: "keeps_queries (thr e)"
  by (simp add: keeps_queries_def thr_def)

lemma keeps_bnd:
  assumes "keeps_queries m" and "\<And>x. keeps_queries (f x)"
  shows "keeps_queries (bnd m f)"
  unfolding keeps_queries_def
proof
  fix w
  obtain r w' where mw: "m w = (r, w')" by (cases "m w")
  have q: "queries w' = queries w" using assms(1) mw by (auto simp: keeps_queries_def dest: spec[of _ w])
  show "queries (snd (bnd m f w)) = queries w"
  proof (cases r)
    case (Inl e) then show ?thesis using mw q by (simp add: bnd_def)
  next
    case (Inr x)
    then have "bnd m f w = f x w'" using mw by (simp add: bnd_def)
    then show ?thesis using assms(2)[of x] q by (simp add: keeps_queries_def)
  qed
qed

lemma keeps_try_catch:
  assumes "keeps_queries m" and "\<And>e. keeps_queries (h e)"
  shows "keeps_queries (try_catch m h)"
  unfolding keeps_queries_def
proof
  fix w
  obtain r w' where mw: "m w = (r, w')" by (cases "m w")
  have q: "queries w' = queries w" using assms(1) mw by (auto simp: keeps_queries_def dest: spec[of _ w])
  show "queries (snd (try_catch m h w)) = queries w"
  proof (cases r)
    case (Inr x) then show ?thesis using mw q by (simp add: try_catch_def)
  next
    case (Inl e)
    then have "try_catch m h w = h e w'" using mw by (simp add: try_catch_def)
    then show ?thesis using assms(2)[of e] q by (simp add: keeps_queries_def)
  qed
qed

lemma keeps_generateContent: "keeps_queries (generateContent request)"
  by (simp add: keeps_queries_def generateContent_def)

lemma tryCandidates_queries: "queries (snd (tryCandidates cs w)) = queries w"
  by (induction cs arbitrary: w)
     (auto simp: generateContent_def Date_now_def split: prod.splits sum.splits)

lemma listModelsFallback_queries: "queries (snd (listModelsFallback w)) = queries w"
  by (auto simp: listModelsFallback_def Date_now_def thr_def split: option.splits sum.splits)

lemma detectModel_queries: "queries (snd (detectModel w)) = queries w"
  using tryCandidates_queries[of "candidates w" w] listModelsFallback_queries
  by (auto simp: detectModel_def split: prod.splits option.splits)

lemma keeps_getModelName: "keeps_queries getModelName"
  using detectModel_queries
  by (auto simp: keeps_queries_def getModelName_def Date_now_def
      split: prod.splits option.splits)

lemma keeps_generateSQLQuery: "keeps_queries (generateSQLQuery q schema)"
  unfolding generateSQLQuery_def generateSQLQuery_try_def Let_def
  by (intro keeps_try_catch keeps_bnd keeps_getModelName keeps_generateContent)
     (simp_all add: keeps_ret keeps_thr)

lemma keeps_formatResponse: "keeps_queries (formatResponse q rows)"
  unfolding formatResponse_def
  by (intro keeps_try_catch keeps_bnd keeps_getModelName keeps_generateContent keeps_ret)

lemma keeps_processGeneralQuestion: "keeps_queries (processGeneralQuestion q)"
  unfolding processGeneralQuestion_def
  by (intro keeps_try_catch keeps_bnd keeps_getModelName keeps_generateContent keeps_ret)

lemma keeps_requires_db: "keeps_queries (requires_db j)"
  by (cases j) (simp_all add: requires_db_def keeps_ret keeps_thr)

lemma keeps_requiresDatabaseQuery: "keeps_queries (requiresDatabaseQuery q)"
  unfolding requiresDatabaseQuery_def requiresDatabaseQuery_try_def
  by (intro keeps_try_catch keeps_bnd keeps_getModelName keeps_generateContent keeps_ret
      keeps_requires_db) (simp add: keeps_queries_def)

lemma sends_keeps: "keeps_queries m \<Longrightarrow> sends_validated m"
  by (simp add: keeps_queries_def sends_validated_def)

lemma sends_bnd:
  assumes "sends_validated m" and "\<And>x. sends_validated (f x)"
  shows "sends_validated (bnd m f)"
  unfolding sends_validated_def
proof
  fix w
  obtain r w' where mw: "m w = (r, w')" by (cases "m w")
  obtain s1 where s1: "queries w' = queries w @ s1" "\<forall>s \<in> set s1. validateQuery s"
    using assms(1) mw unfolding sends_validated_def by (metis snd_conv)
  show "\<exists>sent. queries (snd (bnd m f w)) = queries w @ sent \<and> (\<forall>s \<in> set sent. validateQuery s)"
  proof (cases r)
    case (Inl e) then show ?thesis using mw s1 by (simp add: bnd_def)
  next
    case (Inr x)
    then have eq: "bnd m f w = f x w'" using mw by (simp add: bnd_def)
    obtain s2 where s2: "queries (snd (f x w')) = queries w' @ s2" "\<forall>s \<in> set s2. validateQuery s"
      using assms(2)[of x] unfolding sends_validated_def by blast
    have "queries (snd (bnd m f w)) = queries w @ (s1 @ s2)" using eq s1 s2 by simp
    moreover have "\<forall>s \<in> set (s1 @ s2). validateQuery s" using s1 s2 by auto
    ultimately show ?thesis by blast
  qed
qed

lemma sends_try_catch:
  assumes "sends_validated m" and "\<And>e. sends_validated (h e)"
  shows "sends_validated (try_catch m h)"
  unfolding sends_validated_def
proof
  fix w
  obtain r w' where mw: "m w = (r, w')" by (cases "m w")
  obtain s1 where s1: "queries w' = queries w @ s1" "\<forall>s \<in> set s1. validateQuery s"
    using assms(1) mw unfolding sends_validated_def by (metis snd_conv)
  show "\<exists>sent. queries (snd (try_catch m h w)) = queries w @ sent \<and> (\<forall>s \<in> set sent. validateQuery s)"
  proof (cases r)
    case (Inr x) then show ?thesis using mw s1 by (simp add: try_catch_def)
  next
    case (Inl e)
    then have eq: "try_catch m h w = h e w'" using mw by (simp add: try_catch_def)
    obtain s2 where s2: "queries (snd (h e w')) = queries w' @ s2" "\<forall>s \<in> set s2. validateQuery s"
      using assms(2)[of e] unfolding sends_validated_def by blast
    have "queries (snd (try_catch m h w)) = queries w @ (s1 @ s2)" using eq s1 s2 by simp
    moreover have "\<forall>s \<in> set (s1 @ s2). validateQuery s" using s1 s2 by auto
    ultimately show ?thesis by blast
  qed
qed

lemma executeQuery_queries:
  "queries (snd (executeQuery sql w)) =
     (if bigquery w \<and> credentialsConfigured w \<and> validateQuery sql then queries w @ [sql]
      else queries w)"
  by (auto simp: executeQuery_def executeQuery_try_def try_catch_def bnd_def ret_def thr_def
      bigquery_query_def executeQuery_catch_def Let_def split: sum.splits prod.splits)

lemma sends_executeQuery: "sends_validated (executeQuery sql)"
  unfolding sends_validated_def
proof
  fix w
  show "\<exists>sent. queries (snd (executeQuery sql w)) = queries w @ sent \<and> (\<forall>s \<in> set sent. validateQuery s)"
    by (cases "bigquery w \<and> credentialsConfigured w \<and> validateQuery sql")
       (simp_all only: executeQuery_queries if_True if_False, auto)
qed

lemma sends_if:
  "sends_validated a \<Longrightarrow> sends_validated b \<Longrightarrow> sends_validated (if c then a else b)"
  by simp

lemma sends_processMessage: "sends_validated (processMessage q schema executeQuery)"
  unfolding processMessage_def processMessage_try_def
  by (intro sends_try_catch sends_bnd sends_if sends_executeQuery
      sends_keeps[OF keeps_requiresDatabaseQuery] sends_keeps[OF keeps_processGeneralQuestion]
      sends_keeps[OF keeps_generateSQLQuery] sends_keeps[OF keeps_formatResponse]
      sends_keeps[OF keeps_ret])

lemma notAllowed_rethrown:
  "executeQuery_catch notAllowed_message = thr (''Erro ao consultar dados: '' @ notAllowed_message)"
  by (simp add: executeQuery_catch_def notAllowed_message_def)

lemma notConfigured_rethrown:
  "executeQuery_catch notConfigured_message = thr (''Erro ao consultar dados: '' @ notConfigured_message)"
  by (simp add: executeQuery_catch_def notConfigured_message_def)

lemma executeQuery_rejects:
  assumes "\<not> validateQuery sql"
  shows "executeQuery sql w =
           (Inl (''Erro ao consultar dados: '' @
                 (if bigquery w \<and> credentialsConfigured w then notAllowed_message
                  else notConfigured_message)), w)"
  using assms
  by (simp add: executeQuery_def executeQuery_try_def try_catch_def thr_def
      notAllowed_rethrown notConfigured_rethrown)

lemma generateSQLQuery_Inr_iff:
  "fst (generateSQLQuery q schema w) = Inr s \<longleftrightarrow>
     (\<exists>m w1 text. getModelName w = (Inr m, w1)
        \<and> fst (generateContent (Request m (SQL_prompt (compactSchema schema) q)) w1) = Inr text
        \<and> s = cleanSQL text \<and> s \<noteq> [] \<and> \<not> startsWith s ''ERRO'')"
  by (auto simp: generateSQLQuery_def generateSQLQuery_try_def try_catch_def bnd_def ret_def
      thr_def Let_def split: prod.splits sum.splits)

lemma generateSQLQuery_v1_Inr_iff:
  "fst (generateSQLQuery_v1 q schema w) = Inr s \<longleftrightarrow>
     (\<exists>key text. GEMINI_API_KEY w = Some key \<and> key \<noteq> []
        \<and> fst (generateContent (Request ''gemini-pro'' (SQL_prompt_v1 (compactSchema_v1 schema) q)) w) = Inr text
        \<and> s = cleanSQL_v1 text)"
  by (auto simp: generateSQLQuery_v1_def try_catch_def bnd_def ret_def
      thr_def Let_def split: prod.splits sum.splits option.splits)

lemma processMessage_cases:
  "processMessage q schema exec w =
     (case requiresDatabaseQuery q w of
        (Inl e, w1) \<Rightarrow> (Inr (processMessage_catch e), w1)
      | (Inr False, w1) \<Rightarrow>
          (case processGeneralQuestion q w1 of
             (Inl e, w2) \<Rightarrow> (Inr (processMessage_catch e), w2)
           | (Inr response, w2) \<Rightarrow>
               (Inr \<lparr>o_success = True, o_message = response, o_sql = Null, o_data = Null,
                     o_type = Val General, o_error = Absent\<rparr>, w2))
      | (Inr True, w1) \<Rightarrow>
          (case generateSQLQuery q schema w1 of
             (Inl e, w2) \<Rightarrow> (Inr (processMessage_catch e), w2)
           | (Inr sqlQuery, w2) \<Rightarrow>
               if startsWith sqlQuery ''ERRO'' then
                 (Inr \<lparr>o_success = False, o_message = sqlQuery, o_sql = Absent, o_data = Absent,
                       o_type = Val Error, o_error = Absent\<rparr>, w2)
               else
                 (case exec sqlQuery w2 of
                    (Inl e, w3) \<Rightarrow> (Inr (processMessage_catch e), w3)
                  | (Inr rows, w3) \<Rightarrow>
                      (case formatResponse q rows w3 of
                         (Inl e, w4) \<Rightarrow> (Inr (processMessage_catch e), w4)
                       | (Inr text, w4) \<Rightarrow>
                           (Inr \<lparr>o_success = True, o_message = text, o_sql = Val sqlQuery,
                                 o_data = Val rows, o_type = Val Data, o_error = Absent\<rparr>, w4)))))"
  by (simp add: processMessage_def processMessage_try_def try_catch_def bnd_def ret_def
      split: prod.splits sum.splits bool.splits)

lemma generateSQLQuery_no_sentinel:
  "generateSQLQuery q schema w = (Inr s, w') \<Longrightarrow> s \<noteq> [] \<and> \<not> startsWith s ''ERRO''"
  using generateSQLQuery_Inr_iff[of q schema w s] by auto

lemma processMessage_total:
  "\<exists>out w'. processMessage q schema exec w = (Inr out, w') \<and> ChatOutcome_ok out"
  by (auto simp: processMessage_cases ChatOutcome_ok_def hasValue_def processMessage_catch_def
      split: prod.splits sum.splits bool.splits)

lemma processMessage_not_Error:
  "fst (processMessage q schema exec w) = Inr out \<Longrightarrow> o_type out \<noteq> Val Error"
  by (auto simp: processMessage_cases processMessage_catch_def
      dest: generateSQLQuery_no_sentinel
      split: prod.splits sum.splits bool.splits if_splits)

lemma formatResponse_total:
  "\<exists>text w'. formatResponse q rows w = (Inr text, w')"
  by (auto simp: formatResponse_def try_catch_def bnd_def ret_def split: prod.splits sum.splits)

lemma requiresDatabaseQuery_total:
  "\<exists>b w'. requiresDatabaseQuery q w = (Inr b, w')"
  by (auto simp: requiresDatabaseQuery_def try_catch_def ret_def split: prod.splits sum.splits)

lemma requiresDatabaseQuery_v1_total:
  "\<exists>b w'. requiresDatabaseQuery_v1 q w = (Inr b, w')"
  by (auto simp: requiresDatabaseQuery_v1_def try_catch_def bnd_def ret_def Let_def split: prod.splits sum.splits)

lemma insertIndexed_keys:
  "fst ` set (insertIndexed n key v obj) = insert key (fst ` set obj)"
  by (induction obj) (auto split: option.splits)

lemma assignProperty_keys:
  "fst ` set (assignProperty key v obj) =
     (if key = proto_key then fst ` set obj else insert key (fst ` set obj))"
  by (auto simp: assignProperty_def insertIndexed_keys dom_update split: option.splits)

lemma insertIndexed_map_of:
  "key \<notin> fst ` set obj \<Longrightarrow> map_of (insertIndexed n key v obj) = (map_of obj)(key \<mapsto> v)"
  by (induction obj) (auto split: option.splits simp: fun_upd_twist)

lemma append_map_of:
  assumes "key \<notin> fst ` set obj"
  shows "[key \<mapsto> v] ++ map_of obj = (map_of obj)(key \<mapsto> v)"
proof -
  have none: "map_of obj key = None" using assms by (simp add: map_of_eq_None_iff)
  show ?thesis by (rule ext) (simp add: map_add_def none split: option.splits)
qed

lemma assignProperty_map_of:
  "map_of (assignProperty key v obj) =
     (if key = proto_key then map_of obj else (map_of obj)(key \<mapsto> v))"
  by (simp add: assignProperty_def insertIndexed_map_of append_map_of update_conv'
      split: option.splits)

lemma assignProperty_order:
  "map fst (assignProperty ''7'' c (assignProperty ''notas'' b (assignProperty ''10'' a [])))
     = [''7'', ''10'', ''notas'']"
  by (simp add: assignProperty_def arrayIndex_def digitValue_def proto_key_def)

lemma getTableSchema_result:
  "bigquery w \<Longrightarrow>
   getTableSchema name w =
     ((case fetchedSchema w (getMetadata_calls w) name of
         None \<Rightarrow> Inl (''N'' @ a_tilde @ ''o foi poss'' @ i_acute @ ''vel obter informa''
                       @ c_cedilla @ o_tilde @ ''es da tabela '' @ name)
       | Some s \<Rightarrow> Inr s),
      w\<lparr>getMetadata_calls := Suc (getMetadata_calls w)\<rparr>)"
  by (simp add: getTableSchema_def try_catch_def bnd_def ret_def thr_def fetchedSchema_def
      table_getMetadata_call_def split: sum.splits)

lemma collectSchemas_Cons:
  "bigquery w \<Longrightarrow>
   collectSchemas (name # names) schemas w =
     collectSchemas names
       (case fetchedSchema w (getMetadata_calls w) name of
          None \<Rightarrow> schemas
        | Some s \<Rightarrow> assignProperty name s schemas)
       (w\<lparr>getMetadata_calls := Suc (getMetadata_calls w)\<rparr>)"
  by (cases "fetchedSchema w (getMetadata_calls w) name")
     (simp_all add: getTableSchema_result)

lemma fetchedSchema_later [simp]:
  "fetchedSchema (w\<lparr>getMetadata_calls := c\<rparr>) n name = fetchedSchema w n name"
  by (simp add: fetchedSchema_def)

lemma nth_Cons_collect:
  "{(x # xs) ! i | i. i < length (x # xs) \<and> P i ((x # xs) ! i)} =
   (if P 0 x then {x} else {}) \<union> {xs ! i | i. i < length xs \<and> P (Suc i) (xs ! i)}"
  (is "?L = ?R")
proof (intro set_eqI iffI)
  fix y assume "y \<in> ?L"
  then obtain i where i: "y = (x # xs) ! i" "i < length (x # xs)" "P i ((x # xs) ! i)"
    by blast
  show "y \<in> ?R"
  proof (cases i)
    case 0
    then show ?thesis using i by auto
  next
    case (Suc j)
    then have "y = xs ! j" "j < length xs" "P (Suc j) (xs ! j)" using i by auto
    then show ?thesis by blast
  qed
next
  fix y assume "y \<in> ?R"
  then consider "y = x" "P 0 x" | j where "y = xs ! j" "j < length xs" "P (Suc j) (xs ! j)"
    by (auto split: if_splits)
  then show "y \<in> ?L"
  proof cases
    case 1
    then have "y = (x # xs) ! 0 \<and> 0 < length (x # xs) \<and> P 0 ((x # xs) ! 0)" by simp
    then show ?thesis by blast
  next
    case 2
    then have "y = (x # xs) ! Suc j \<and> Suc j < length (x # xs) \<and> P (Suc j) ((x # xs) ! Suc j)"
      by simp
    then show ?thesis by blast
  qed
qed

lemma collectSchemas_keys:
  "bigquery w \<Longrightarrow>
   fst ` set (fst (collectSchemas names schemas w)) =
     fst ` set schemas \<union>
     {names ! i | i. i < length names \<and> names ! i \<noteq> proto_key
        \<and> fetchedSchema w (getMetadata_calls w + i) (names ! i) \<noteq> None}"
proof (induction names arbitrary: schemas w)
  case Nil
  then show ?case by simp
next
  case (Cons name names)
  let ?c = "getMetadata_calls w"
  let ?w' = "w\<lparr>getMetadata_calls := Suc ?c\<rparr>"
  let ?schemas' = "case fetchedSchema w ?c name of None \<Rightarrow> schemas
                   | Some s \<Rightarrow> assignProperty name s schemas"
  have bq: "bigquery ?w'" using Cons.prems by simp
  have split: "{(name # names) ! i | i. i < length (name # names)
        \<and> (name # names) ! i \<noteq> proto_key
        \<and> fetchedSchema w (?c + i) ((name # names) ! i) \<noteq> None} =
      (if name \<noteq> proto_key \<and> fetchedSchema w ?c name \<noteq> None then {name} else {}) \<union>
      {names ! i | i. i < length names \<and> names ! i \<noteq> proto_key
        \<and> fetchedSchema w (Suc ?c + i) (names ! i) \<noteq> None}"
    using nth_Cons_collect[of name names
        "\<lambda>i n. n \<noteq> proto_key \<and> fetchedSchema w (?c + i) n \<noteq> None"]
    by simp
  have keys': "fst ` set ?schemas' =
      fst ` set schemas \<union>
      (if name \<noteq> proto_key \<and> fetchedSchema w ?c name \<noteq> None then {name} else {})"
    by (auto simp: assignProperty_keys split: option.splits)
  have IH: "fst ` set (fst (collectSchemas names ?schemas' ?w')) =
      fst ` set ?schemas' \<union>
      {names ! i | i. i < length names \<and> names ! i \<noteq> proto_key
        \<and> fetchedSchema w (Suc ?c + i) (names ! i) \<noteq> None}"
    using Cons.IH[OF bq, of ?schemas'] by simp
  have "fst ` set (fst (collectSchemas (name # names) schemas w)) =
      fst ` set ?schemas' \<union>
      {names ! i | i. i < length names \<and> names ! i \<noteq> proto_key
        \<and> fetchedSchema w (Suc ?c + i) (names ! i) \<noteq> None}"
    unfolding collectSchemas_Cons[OF Cons.prems] by (rule IH)
  then show ?case unfolding split keys' by blast
qed

lemma collectSchemas_untouched:
  "bigquery w \<Longrightarrow>
   (\<forall>i < length names. names ! i = n \<longrightarrow>
        fetchedSchema w (getMetadata_calls w + i) n = None) \<Longrightarrow>
   map_of (fst (collectSchemas names schemas w)) n = map_of schemas n"
proof (induction names arbitrary: schemas w)
  case Nil
  then show ?case by simp
next
  case (Cons name names)
  let ?c = "getMetadata_calls w"
  let ?w' = "w\<lparr>getMetadata_calls := Suc ?c\<rparr>"
  let ?schemas' = "case fetchedSchema w ?c name of None \<Rightarrow> schemas
                   | Some s \<Rightarrow> assignProperty name s schemas"
  have bq: "bigquery ?w'" using Cons.prems(1) by simp
  have later: "\<forall>i < length names. names ! i = n \<longrightarrow>
                 fetchedSchema ?w' (getMetadata_calls ?w' + i) n = None"
  proof (intro allI impI)
    fix i assume i: "i < length names" "names ! i = n"
    have "fetchedSchema w (?c + Suc i) n = None"
      using Cons.prems(2)[rule_format, of "Suc i"] i by simp
    then show "fetchedSchema ?w' (getMetadata_calls ?w' + i) n = None" by simp
  qed
  have first: "map_of ?schemas' n = map_of schemas n"
  proof (cases "fetchedSchema w ?c name")
    case None
    then show ?thesis by simp
  next
    case (Some t)
    have "name = n \<Longrightarrow> fetchedSchema w ?c name = None"
      using Cons.prems(2)[rule_format, of 0] by simp
    then have "name \<noteq> n" using Some by auto
    then show ?thesis using Some by (simp add: assignProperty_map_of)
  qed
  have "map_of (fst (collectSchemas (name # names) schemas w)) n = map_of ?schemas' n"
    unfolding collectSchemas_Cons[OF Cons.prems(1)] by (rule Cons.IH[OF bq later, of ?schemas'])
  then show ?case using first by (simp only:)
qed

lemma collectSchemas_last_fetch:
  "bigquery w \<Longrightarrow> i < length names \<Longrightarrow> names ! i \<noteq> proto_key \<Longrightarrow>
   fetchedSchema w (getMetadata_calls w + i) (names ! i) = Some s \<Longrightarrow>
   (\<forall>j. i < j \<and> j < length names \<and> names ! j = names ! i \<longrightarrow>
        fetchedSchema w (getMetadata_calls w + j) (names ! i) = None) \<Longrightarrow>
   map_of (fst (collectSchemas names schemas w)) (names ! i) = Some s"
proof (induction names arbitrary: i schemas w)
  case Nil
  then show ?case by simp
next
  case (Cons name names)
  let ?c = "getMetadata_calls w"
  let ?w' = "w\<lparr>getMetadata_calls := Suc ?c\<rparr>"
  let ?schemas' = "case fetchedSchema w ?c name of None \<Rightarrow> schemas
                   | Some s \<Rightarrow> assignProperty name s schemas"
  have bq: "bigquery ?w'" using Cons.prems(1) by simp
  have step: "collectSchemas (name # names) schemas w = collectSchemas names ?schemas' ?w'"
    by (rule collectSchemas_Cons[OF Cons.prems(1)])
  show ?case
  proof (cases i)
    case 0
    have f: "fetchedSchema w ?c name = Some s" and np: "name \<noteq> proto_key"
      using Cons.prems(3,4) 0 by simp_all
    have none: "\<forall>j < length names. names ! j = name \<longrightarrow>
                  fetchedSchema ?w' (getMetadata_calls ?w' + j) name = None"
    proof (intro allI impI)
      fix j assume j: "j < length names" "names ! j = name"
      have "fetchedSchema w (?c + Suc j) ((name # names) ! i) = None"
        using Cons.prems(5)[rule_format, of "Suc j"] j 0 by simp
      then show "fetchedSchema ?w' (getMetadata_calls ?w' + j) name = None"
        using 0 by simp
    qed
    have "map_of (fst (collectSchemas names ?schemas' ?w')) name = map_of ?schemas' name"
      by (rule collectSchemas_untouched[OF bq none])
    also have "\<dots> = Some s" using f np by (simp add: assignProperty_map_of)
    finally show ?thesis unfolding step using 0 by simp
  next
    case (Suc k)
    have k: "k < length names" "names ! k \<noteq> proto_key"
      "fetchedSchema ?w' (getMetadata_calls ?w' + k) (names ! k) = Some s"
      using Cons.prems(2,3,4) Suc by simp_all
    have none: "\<forall>j. k < j \<and> j < length names \<and> names ! j = names ! k \<longrightarrow>
                  fetchedSchema ?w' (getMetadata_calls ?w' + j) (names ! k) = None"
    proof (intro allI impI)
      fix j assume j: "k < j \<and> j < length names \<and> names ! j = names ! k"
      have "fetchedSchema w (?c + Suc j) ((name # names) ! i) = None"
        using Cons.prems(5)[rule_format, of "Suc j"] j Suc by simp
      then show "fetchedSchema ?w' (getMetadata_calls ?w' + j) (names ! k) = None"
        using Suc by simp
    qed
    have "map_of (fst (collectSchemas names ?schemas' ?w')) (names ! k) = Some s"
      by (rule Cons.IH[OF bq k none])
    then show ?thesis unfolding step using Suc by simp
  qed
qed

lemma collectSchemas_getTables_calls:
  "getTables_calls (snd (collectSchemas names schemas w)) = getTables_calls w"
  by (induction names arbitrary: schemas w)
     (auto simp: getTableSchema_def try_catch_def bnd_def ret_def thr_def
        table_getMetadata_call_def split: prod.splits sum.splits)

lemma listTables_Inr:
  "listTables w = (Inr names, w1) \<Longrightarrow>
     bigquery w \<and> dataset_getTables w (getTables_calls w) = Inr names
     \<and> w1 = w\<lparr>getTables_calls := Suc (getTables_calls w)\<rparr>"
  by (auto simp: listTables_def try_catch_def thr_def dataset_getTables_call_def
      split: if_splits sum.splits)

lemma getDatasetSchema_Inr:
  assumes "listTables w = (Inr names, w1)"
  shows "getDatasetSchema w =
           (Inr \<lparr>dataset = BIGQUERY_DATASET (snd (collectSchemas names [] w1)),
                 project = GCP_PROJECT_ID (snd (collectSchemas names [] w1)),
                 tables = fst (collectSchemas names [] w1)\<rparr>, snd (collectSchemas names [] w1))"
  using assms
  by (simp add: getDatasetSchema_def try_catch_def bnd_def ret_def split: prod.splits)

lemma getDatasetSchema_getTables_calls:
  assumes "getDatasetSchema w = (Inr s, w')"
  shows "getTables_calls w' = Suc (getTables_calls w)"
proof -
  obtain r w1 where lt: "listTables w = (r, w1)" by (cases "listTables w")
  show ?thesis
  proof (cases r)
    case (Inl e)
    then show ?thesis using assms lt
      by (simp add: getDatasetSchema_def try_catch_def bnd_def thr_def)
  next
    case (Inr names)
    then have l: "listTables w = (Inr names, w1)" using lt by simp
    have "w' = snd (collectSchemas names [] w1)"
      using assms getDatasetSchema_Inr[OF l] by simp
    moreover have "getTables_calls w1 = Suc (getTables_calls w)"
      using listTables_Inr[OF l] by simp
    ultimately show ?thesis by (simp add: collectSchemas_getTables_calls)
  qed
qed

lemma getSchema_miss:
  "\<not> schemaCacheValid (clock w (ticks w)) w \<Longrightarrow>
   getSchema w = getSchema_refresh (clock w (ticks w)) (w\<lparr>ticks := Suc (ticks w)\<rparr>)"
  by (auto simp: getSchema_def Date_now_def schemaCacheValid_def split: option.splits)

lemma getSchema_hit:
  "cachedSchema w = Some s \<Longrightarrow> schemaLastUpdated w = Some t \<Longrightarrow> t \<noteq> 0 \<Longrightarrow>
   clock w (ticks w) - t < SCHEMA_CACHE_DURATION \<Longrightarrow>
   getSchema w = (Inr s, w\<lparr>ticks := Suc (ticks w)\<rparr>)"
  by (simp add: getSchema_def Date_now_def)

section \<open>The stages of the pipeline\<close>

lemma processMessage_try_Inl:
  "processMessage_try q schema exec w = (Inl e, w') \<Longrightarrow>
   processMessage q schema exec w = (Inr (processMessage_catch e), w')"
  by (simp add: processMessage_def try_catch_def ret_def)

lemma processMessage_generation_fails:
  "requiresDatabaseQuery q w = (Inr True, w1) \<Longrightarrow> generateSQLQuery q schema w1 = (Inl e, w2) \<Longrightarrow>
   processMessage q schema exec w = (Inr (processMessage_catch e), w2)"
  by (simp add: processMessage_cases)

lemma processMessage_execution_fails:
  "requiresDatabaseQuery q w = (Inr True, w1) \<Longrightarrow> generateSQLQuery q schema w1 = (Inr s, w2) \<Longrightarrow>
   exec s w2 = (Inl e, w3) \<Longrightarrow>
   processMessage q schema exec w = (Inr (processMessage_catch e), w3)"
  using generateSQLQuery_no_sentinel[of q schema w1 s w2]
  by (simp add: processMessage_cases)




lemma formatResponse_fallback:
  "bnd getModelName (\<lambda>modelName. generateContent (Request modelName (Format_prompt q rows))) w
     = (Inl e, w') \<Longrightarrow>
   formatResponse q rows w =
     (Inr (''Aqui est'' @ a_tilde @ ''o os dados encontrados: '' @ JSON_stringify rows), w')"
  by (auto simp: formatResponse_def try_catch_def bnd_def ret_def split: prod.splits sum.splits)

lemma requiresDatabaseQuery_try_Inl:
  "requiresDatabaseQuery_try q w = (Inl e, w') \<Longrightarrow>
   requiresDatabaseQuery q w = (Inr (10 < length q), w')"
  by (simp add: requiresDatabaseQuery_def try_catch_def ret_def)

lemma requiresDatabaseQuery_try_model_fails:
  "getModelName w = (Inl e, w1) \<Longrightarrow> requiresDatabaseQuery_try q w = (Inl e, w1)"
  by (simp add: requiresDatabaseQuery_try_def bnd_def)

lemma requiresDatabaseQuery_try_call_fails:
  "getModelName w = (Inr m, w1) \<Longrightarrow>
   generateContent (Request m (Classify_prompt q)) w1 = (Inl e, w2) \<Longrightarrow>
   requiresDatabaseQuery_try q w = (Inl e, w2)"
  by (simp add: requiresDatabaseQuery_try_def bnd_def)

lemma requiresDatabaseQuery_try_parse_fails:
  "getModelName w = (Inr m, w1) \<Longrightarrow>
   generateContent (Request m (Classify_prompt q)) w1 = (Inr text, w2) \<Longrightarrow>
   isl (JSON_parse w2 text) \<or> JSON_parse w2 text = Inr JNull \<Longrightarrow>
   \<exists>e. requiresDatabaseQuery_try q w = (Inl e, w2)"
  by (cases "JSON_parse w2 text")
     (auto simp: requiresDatabaseQuery_try_def bnd_def requires_db_def thr_def)

lemma requiresDatabaseQuery_v1_call_fails:
  "generateContent (Request ''gemini-pro'' (Classify_prompt_v1 q)) w = (Inl e, w1) \<Longrightarrow>
   requiresDatabaseQuery_v1 q w = (Inr True, w1)"
  by (simp add: requiresDatabaseQuery_v1_def try_catch_def bnd_def ret_def)

lemma requiresDatabaseQuery_v1_reply:
  "generateContent (Request ''gemini-pro'' (Classify_prompt_v1 q)) w = (Inr reply, w1) \<Longrightarrow>
   requiresDatabaseQuery_v1 q w = (Inr (includesStr (toUpperCase (trim reply)) ''SIM''), w1)"
  by (simp add: requiresDatabaseQuery_v1_def try_catch_def bnd_def ret_def Let_def)

lemma requiresDatabaseQuery_parsed:
  "getModelName w = (Inr m, w1) \<Longrightarrow>
   generateContent (Request m (Classify_prompt q)) w1 = (Inr reply, w2) \<Longrightarrow>
   JSON_parse w2 reply = Inr j \<Longrightarrow> j \<noteq> JNull \<Longrightarrow>
   requiresDatabaseQuery q w =
     (Inr (case j of JObj props \<Rightarrow> map_of props ''requires_db'' = Some (JBool True)
                   | _ \<Rightarrow> False), w2)"
  by (cases j)
     (simp_all add: requiresDatabaseQuery_def requiresDatabaseQuery_try_def try_catch_def
        bnd_def ret_def requires_db_def)

lemma generateSQLQuery_refusal:
  "getModelName w = (Inr m, w1) \<Longrightarrow>
   generateContent (Request m (SQL_prompt (compactSchema schema) q)) w1 = (Inr text, w2) \<Longrightarrow>
   cleanSQL text = [] \<or> startsWith (cleanSQL text) ''ERRO'' \<Longrightarrow>
   generateSQLQuery q schema w =
     (Inl (''Erro ao gerar query: '' @ noValidQuery_message (cleanSQL text)), w2)"
  by (auto simp: generateSQLQuery_def generateSQLQuery_try_def try_catch_def bnd_def thr_def
      Let_def noValidQuery_message_def)

section \<open>Evaluation at concrete inputs\<close>

lemmas io_defs = ret_def thr_def bnd_def try_catch_def

lemmas string_defs = toUpperCase_def upperChar_def lowerLetters_def upperLetters_def
  trim_def isWhiteSpace_def
  forbiddenCommands_def validateQuery_def cleanSQL_def cleanSQL_v1_def

lemmas world_defs = example_world_def example_schema_def answering_world_def
  unconfigured_world_def

lemmas gemini_defs = getModelName_def detectModel_def candidates_def generateContent_def
  Date_now_def listModelsFallback_def noModel_message_def compactSchema_def
  compactSchema_v1_def compactTables_def CACHE_DURATION_def

lemmas stage_defs = processMessage_def processMessage_try_def requiresDatabaseQuery_def
  requiresDatabaseQuery_try_def generateSQLQuery_def generateSQLQuery_try_def
  formatResponse_def processGeneralQuestion_def executeQuery_def executeQuery_try_def
  executeQuery_catch_def bigquery_query_def requires_db_def noValidQuery_message_def
  processMessage_catch_def

lemmas bigquery_defs = getDatasetSchema_def listTables_def getTableSchema_def
  table_getMetadata_call_def dataset_getTables_call_def fieldSummary_def
  assignProperty_def arrayIndex_def digitValue_def proto_key_def

lemma pair_fst_snd: "fst p = a \<Longrightarrow> p = (a, snd p)"
  by (cases p) simp

lemma not_valid_DROP: "\<not> validateQuery ''DROP TABLE t''"
  by (simp add: string_defs)

lemma valid_SELECT: "validateQuery ''SELECT 1''"
  by (simp add: string_defs)

section \<open>The validator\<close>

text \<open>
  C2. For every string \<open>s\<close>, \<open>validateQuery s\<close> is true if and only if the upper-cased
  form of \<open>s\<close> contains none of the nine forbidden keywords as a substring and the
  trimmed upper-cased form of \<open>s\<close> starts with SELECT. The function is a pure
  function of its argument: it reads and writes no state.
\<close>

theorem validateQuery_iff_isSafe_spec:
  "validateQuery s = isSafe_spec s"
  by (auto simp add: validateQuery_def isSafe_spec_def forbiddenCommands_def
      containsForbidden_iff startsWith_prefix Let_def)

text \<open>
  The validator at the inputs listed in the specification: accepted with any letter
  case and with leading white space, rejected when a forbidden keyword occurs anywhere.
\<close>

theorem validateQuery_iff_isSafe_spec_witness:
  "isSafe_spec ''SELECT * FROM t'' \<and> isSafe_spec ''   select 1''
   \<and> \<not> isSafe_spec ''DROP TABLE t'' \<and> \<not> isSafe_spec ''SELECT * FROM t; DELETE FROM t''"
  using validateQuery_iff_isSafe_spec[of "''SELECT * FROM t''"]
    validateQuery_iff_isSafe_spec[of "''   select 1''"]
    validateQuery_iff_isSafe_spec[of "''DROP TABLE t''"]
    validateQuery_iff_isSafe_spec[of "''SELECT * FROM t; DELETE FROM t''"]
  by (simp add: string_defs)

section \<open>The executor's guard\<close>

text \<open>
  C1, as stated, fails: with no credentials configured, \<open>executeQuery\<close> answers a
  rejected statement with the not-configured error, since that check comes first in
  its \<open>try\<close> block; the error is not the unsafe-query error, with or without the
  prefix that the handler adds.
\<close>

theorem executeQuery_unsafe_error_counterexample:
  "\<not> validateQuery ''DROP TABLE t''
   \<and> fst (executeQuery ''DROP TABLE t'' unconfigured_world)
       = Inl (''Erro ao consultar dados: '' @ notConfigured_message)
   \<and> fst (executeQuery ''DROP TABLE t'' unconfigured_world) \<noteq> Inl notAllowed_message
   \<and> fst (executeQuery ''DROP TABLE t'' unconfigured_world)
       \<noteq> Inl (''Erro ao consultar dados: '' @ notAllowed_message)"
  by (simp add: not_valid_DROP executeQuery_def executeQuery_try_def executeQuery_catch_def
      io_defs world_defs notConfigured_message_def notAllowed_message_def)

text \<open>
  C1 (amended). A statement reaches the warehouse through \<open>executeQuery\<close> only if the
  client is configured and \<open>validateQuery\<close> accepts it, and then exactly that statement
  is sent. Whenever \<open>validateQuery\<close> rejects the statement, \<open>executeQuery\<close> throws and
  leaves the world as it was, so no warehouse call is made: the error is the
  unsafe-query error when the client is configured and the not-configured error
  otherwise, in both cases re-thrown by the handler behind the prefix
  \<open>Erro ao consultar dados:\<close>. And \<open>processMessage\<close>, given \<open>executeQuery\<close> as its
  executor (as the route \<open>POST /message\<close> does), sends to the warehouse only statements
  that \<open>validateQuery\<close> accepts.
\<close>

theorem executeQuery_guards_warehouse:
  "queries (snd (executeQuery sql w)) =
     (if bigquery w \<and> credentialsConfigured w \<and> validateQuery sql then queries w @ [sql]
      else queries w)
   \<and> (\<not> validateQuery sql \<longrightarrow>
        executeQuery sql w =
          (Inl (''Erro ao consultar dados: '' @
                (if bigquery w \<and> credentialsConfigured w then notAllowed_message
                 else notConfigured_message)), w))
   \<and> (\<exists>sent. queries (snd (processMessage q schema executeQuery w)) = queries w @ sent
         \<and> (\<forall>s \<in> set sent. validateQuery s))"
  using executeQuery_queries[of sql w] executeQuery_rejects[of sql w]
    sends_processMessage[of q schema]
  unfolding sends_validated_def by blast

theorem executeQuery_guards_warehouse_witness:
  "\<not> validateQuery ''DROP TABLE t''
   \<and> executeQuery ''DROP TABLE t'' example_world =
       (Inl (''Erro ao consultar dados: '' @ notAllowed_message), example_world)
   \<and> queries (snd (executeQuery ''DROP TABLE t'' example_world)) = []
   \<and> queries (snd (executeQuery ''SELECT 1'' example_world)) = [''SELECT 1'']
   \<and> queries (snd (processMessage ''Quantos professores?'' example_schema executeQuery
                     (answering_world ''SELECT 1''))) = [''SELECT 1'']"
proof -
  have a: "\<not> validateQuery ''DROP TABLE t''" by (rule not_valid_DROP)
  have b: "validateQuery ''SELECT 1''" by (rule valid_SELECT)
  have c: "bigquery example_world \<and> credentialsConfigured example_world
           \<and> queries example_world = []"
    by (simp add: example_world_def)
  have d: "queries (snd (processMessage ''Quantos professores?'' example_schema executeQuery
                     (answering_world ''SELECT 1''))) = [''SELECT 1'']"
    by (simp add: processMessage_def processMessage_try_def requiresDatabaseQuery_def
        requiresDatabaseQuery_try_def generateSQLQuery_def generateSQLQuery_try_def
        formatResponse_def executeQuery_def executeQuery_try_def bigquery_query_def
        io_defs world_defs gemini_defs string_defs Let_def)
  show ?thesis
    using a b c d
      executeQuery_guards_warehouse[of "''DROP TABLE t''" example_world]
      executeQuery_guards_warehouse[of "''SELECT 1''" example_world]
    by simp
qed

section \<open>The generator\<close>

text \<open>
  C3, as stated, fails: neither revision of \<open>generateSQLQuery\<close> calls the validator.
  A model reply \<open>DROP TABLE t\<close> is returned to the caller as it is.
\<close>

theorem generateSQLQuery_unvalidated_counterexample:
  "fst (generateSQLQuery ''Apague a tabela t'' example_schema (answering_world ''DROP TABLE t''))
     = Inr ''DROP TABLE t''
   \<and> fst (generateSQLQuery_v1 ''Apague a tabela t'' example_schema (answering_world ''DROP TABLE t''))
     = Inr ''DROP TABLE t''
   \<and> \<not> validateQuery ''DROP TABLE t''"
  by (simp add: generateSQLQuery_def generateSQLQuery_try_def generateSQLQuery_v1_def
      io_defs world_defs gemini_defs string_defs Let_def)

text \<open>
  C3 (amended). \<open>generateSQLQuery\<close> either throws or returns the cleaned model reply:
  in the current module exactly when a model was selected, the model answered, and the
  cleaned reply is not empty and does not start with \<open>ERRO\<close>; in the earlier revision
  exactly when the API key is set and the model answered. The generator does not run
  the validator; a returned string that \<open>validateQuery\<close> rejects is stopped by
  \<open>executeQuery\<close>, which sends nothing to the warehouse for it.
\<close>

theorem generateSQLQuery_returns_cleaned_reply:
  "(fst (generateSQLQuery q schema w) = Inr s \<longleftrightarrow>
      (\<exists>m w1 text. getModelName w = (Inr m, w1)
         \<and> fst (generateContent (Request m (SQL_prompt (compactSchema schema) q)) w1) = Inr text
         \<and> s = cleanSQL text \<and> s \<noteq> [] \<and> \<not> startsWith s ''ERRO''))
   \<and> (fst (generateSQLQuery_v1 q schema w) = Inr s \<longleftrightarrow>
      (\<exists>key text. GEMINI_API_KEY w = Some key \<and> key \<noteq> []
         \<and> fst (generateContent
                  (Request ''gemini-pro'' (SQL_prompt_v1 (compactSchema_v1 schema) q)) w) = Inr text
         \<and> s = cleanSQL_v1 text))
   \<and> (\<not> validateQuery s \<longrightarrow> queries (snd (executeQuery s w')) = queries w')"
  using generateSQLQuery_Inr_iff[of q schema w s] generateSQLQuery_v1_Inr_iff[of q schema w s]
    executeQuery_queries[of s w']
  by simp

theorem generateSQLQuery_returns_cleaned_reply_witness:
  "fst (generateSQLQuery ''Apague a tabela t'' example_schema (answering_world ''```sql DROP TABLE t```''))
     = Inr ''DROP TABLE t''
   \<and> \<not> validateQuery ''DROP TABLE t''
   \<and> queries (snd (executeQuery ''DROP TABLE t'' example_world)) = queries example_world"
proof -
  have a: "fst (generateSQLQuery ''Apague a tabela t'' example_schema (answering_world ''```sql DROP TABLE t```''))
     = Inr ''DROP TABLE t''"
    by (simp add: generateSQLQuery_def generateSQLQuery_try_def
      io_defs world_defs gemini_defs string_defs Let_def)
  show ?thesis
    using a not_valid_DROP
      generateSQLQuery_returns_cleaned_reply[of "''Apague a tabela t''" example_schema
        "answering_world ''```sql DROP TABLE t```''" "''DROP TABLE t''" example_world]
    by simp
qed

section \<open>The orchestrator\<close>

text \<open>
  C4. \<open>processMessage\<close> never throws: for every question, schema, executor and world
  (every behaviour of the LLM service, of the warehouse and of \<open>JSON.parse\<close>), it
  returns an outcome, and the outcome satisfies the invariant \<^const>\<open>ChatOutcome_ok\<close>.
  Whatever its \<open>try\<close> block throws is converted to the outcome
  \<^const>\<open>processMessage_catch\<close>: \<open>success = false\<close>, the generic message and the
  message of the error in \<open>error\<close>; in particular an error thrown by the generator or
  by the executor.
\<close>

theorem processMessage_never_throws:
  "(\<exists>out w'. processMessage q schema exec w = (Inr out, w') \<and> ChatOutcome_ok out)
   \<and> (\<forall>e w'. processMessage_try q schema exec w = (Inl e, w') \<longrightarrow>
         processMessage q schema exec w = (Inr (processMessage_catch e), w'))
   \<and> (\<forall>e w1 w2. requiresDatabaseQuery q w = (Inr True, w1)
         \<and> generateSQLQuery q schema w1 = (Inl e, w2) \<longrightarrow>
         processMessage q schema exec w = (Inr (processMessage_catch e), w2))
   \<and> (\<forall>e s w1 w2 w3. requiresDatabaseQuery q w = (Inr True, w1)
         \<and> generateSQLQuery q schema w1 = (Inr s, w2) \<and> exec s w2 = (Inl e, w3) \<longrightarrow>
         processMessage q schema exec w = (Inr (processMessage_catch e), w3))"
  using processMessage_total[of q schema exec w]
  by (auto intro: processMessage_try_Inl processMessage_generation_fails
      processMessage_execution_fails)

theorem processMessage_never_throws_witness:
  "fst (requiresDatabaseQuery ''Quantos professores?'' missing_table_world) = Inr True
   \<and> fst (generateSQLQuery ''Quantos professores?'' example_schema
            (snd (requiresDatabaseQuery ''Quantos professores?'' missing_table_world)))
       = Inr ''SELECT * FROM t''
   \<and> fst (executeQuery ''SELECT * FROM t''
            (snd (generateSQLQuery ''Quantos professores?'' example_schema
                   (snd (requiresDatabaseQuery ''Quantos professores?'' missing_table_world)))))
       = Inl (''Tabela n'' @ a_tilde @ ''o encontrada no BigQuery. Verifique o nome da tabela.'')
   \<and> fst (processMessage ''Quantos professores?'' example_schema executeQuery missing_table_world)
       = Inr \<lparr>o_success = False, o_message = ''Erro interno ao processar IA.'', o_sql = Absent,
              o_data = Absent, o_type = Absent,
              o_error = Val (''Tabela n'' @ a_tilde
                             @ ''o encontrada no BigQuery. Verifique o nome da tabela.'')\<rparr>"
proof -
  let ?q = "''Quantos professores?''"
  let ?w1 = "snd (requiresDatabaseQuery ?q missing_table_world)"
  let ?w2 = "snd (generateSQLQuery ?q example_schema ?w1)"
  let ?w3 = "snd (executeQuery ''SELECT * FROM t'' ?w2)"
  let ?e = "''Tabela n'' @ a_tilde @ ''o encontrada no BigQuery. Verifique o nome da tabela.''"
  have a: "fst (requiresDatabaseQuery ?q missing_table_world) = Inr True"
    by (simp add: stage_defs io_defs world_defs gemini_defs missing_table_world_def)
  have b: "fst (generateSQLQuery ?q example_schema ?w1) = Inr ''SELECT * FROM t''"
    by (simp add: stage_defs io_defs world_defs gemini_defs string_defs missing_table_world_def
        Let_def)
  have c: "fst (executeQuery ''SELECT * FROM t'' ?w2) = Inl ?e"
    by (simp add: stage_defs io_defs world_defs gemini_defs string_defs missing_table_world_def
        Let_def)
  have h: "requiresDatabaseQuery ?q missing_table_world = (Inr True, ?w1)
         \<and> generateSQLQuery ?q example_schema ?w1 = (Inr ''SELECT * FROM t'', ?w2)
         \<and> executeQuery ''SELECT * FROM t'' ?w2 = (Inl ?e, ?w3)"
    using pair_fst_snd[OF a] pair_fst_snd[OF b] pair_fst_snd[OF c] by (intro conjI)
  have "processMessage ?q example_schema executeQuery missing_table_world
          = (Inr (processMessage_catch ?e), ?w3)"
    by (rule processMessage_never_throws[of ?q example_schema executeQuery missing_table_world,
          THEN conjunct2, THEN conjunct2, THEN conjunct2, rule_format, OF h])
  then have "fst (processMessage ?q example_schema executeQuery missing_table_world)
          = Inr (processMessage_catch ?e)"
    by (rule arg_cong[where f = fst, THEN trans]) simp
  then show ?thesis using a b c by (simp only: processMessage_catch_def simp_thms)
qed



section \<open>The formatter\<close>

text \<open>
  C6, as stated, fails for the earlier revision of \<open>formatResponse\<close>, whose handler
  throws \<open>Erro ao formatar resposta\<close> when the LLM call fails.
\<close>

theorem formatResponse_v1_rethrows_counterexample:
  "fst (formatResponse_v1 ''Quantos professores?'' [''{}''] example_world)
     = Inl ''Erro ao formatar resposta''"
  by (simp add: formatResponse_v1_def io_defs world_defs gemini_defs)

text \<open>
  C6 (amended). The \<open>formatResponse\<close> of the current module always returns a text:
  for every question, rows and world it does not throw, and when the selection of
  the model or the LLM call fails it returns the fixed prefix followed by
  \<open>JSON.stringify\<close> of the rows.
\<close>

theorem formatResponse_never_throws:
  "(\<exists>text w'. formatResponse q rows w = (Inr text, w'))
   \<and> (\<forall>e w'. bnd getModelName
                (\<lambda>modelName. generateContent (Request modelName (Format_prompt q rows))) w
              = (Inl e, w') \<longrightarrow>
         formatResponse q rows w =
           (Inr (''Aqui est'' @ a_tilde @ ''o os dados encontrados: '' @ JSON_stringify rows), w'))"
  using formatResponse_total[of q rows w] formatResponse_fallback[of q rows w]
  by blast

theorem formatResponse_never_throws_witness:
  "fst (bnd getModelName
          (\<lambda>modelName. generateContent
             (Request modelName (Format_prompt ''Quantos professores?'' [''{}'', ''{}''])))
          example_world) = Inl noModel_message
   \<and> fst (formatResponse ''Quantos professores?'' [''{}'', ''{}''] example_world)
       = Inr (''Aqui est'' @ a_tilde @ ''o os dados encontrados: [{},{}]'')"
proof -
  let ?m = "bnd getModelName
          (\<lambda>modelName. generateContent
             (Request modelName (Format_prompt ''Quantos professores?'' [''{}'', ''{}''])))"
  have a: "fst (?m example_world) = Inl noModel_message"
    by (simp add: io_defs world_defs gemini_defs)
  have "formatResponse ''Quantos professores?'' [''{}'', ''{}''] example_world =
     (Inr (''Aqui est'' @ a_tilde @ ''o os dados encontrados: ''
           @ JSON_stringify [''{}'', ''{}'']), snd (?m example_world))"
    by (rule formatResponse_never_throws[THEN conjunct2, rule_format, OF pair_fst_snd[OF a]])
  then show ?thesis using a by (simp add: JSON_stringify_def)
qed

section \<open>The schema cache and the schema fetch\<close>

text \<open>
  C7. When a call of \<open>getSchema\<close> misses the cache and its fetch succeeds, and the next
  call happens less than \<open>SCHEMA_CACHE_DURATION\<close> (one hour) later, the two calls list
  the tables of the dataset once in total: the second call returns the schema of the
  first and changes nothing in the world but the clock. Times are \<open>Date.now()\<close>,
  milliseconds since the epoch, taken to be non-zero at the first call (the code tests
  \<open>schemaLastUpdated\<close> for truthiness).
\<close>

theorem getSchema_second_call_cached:
  assumes miss: "\<not> schemaCacheValid (clock w (ticks w)) w"
    and fetch: "getDatasetSchema (w\<lparr>ticks := Suc (ticks w)\<rparr>) = (Inr s, wb)"
    and now1: "clock w (ticks w) \<noteq> 0"
    and w1: "w1 = snd (getSchema w)"
    and ttl: "clock w1 (ticks w1) - clock w (ticks w) < SCHEMA_CACHE_DURATION"
  shows "fst (getSchema w) = Inr s
       \<and> getTables_calls w1 = Suc (getTables_calls w)
       \<and> getSchema w1 = (Inr s, w1\<lparr>ticks := Suc (ticks w1)\<rparr>)
       \<and> getTables_calls (snd (getSchema w1)) = Suc (getTables_calls w)"
proof -
  let ?now = "clock w (ticks w)"
  have first: "getSchema w = (Inr s, wb\<lparr>cachedSchema := Some s, schemaLastUpdated := Some ?now\<rparr>)"
    using getSchema_miss[OF miss] fetch by (simp add: getSchema_refresh_def)
  then have w1_eq: "w1 = wb\<lparr>cachedSchema := Some s, schemaLastUpdated := Some ?now\<rparr>"
    using w1 by simp
  have calls: "getTables_calls w1 = Suc (getTables_calls w)"
    using getDatasetSchema_getTables_calls[OF fetch] w1_eq by simp
  have second: "getSchema w1 = (Inr s, w1\<lparr>ticks := Suc (ticks w1)\<rparr>)"
    by (rule getSchema_hit[where t = ?now]) (use w1_eq now1 ttl in simp_all)
  then have "getTables_calls (snd (getSchema w1)) = Suc (getTables_calls w)"
    using calls by simp
  then show ?thesis using first calls second by simp
qed

theorem getSchema_second_call_cached_witness:
  "\<not> schemaCacheValid (clock example_world (ticks example_world)) example_world
   \<and> fst (getDatasetSchema (example_world\<lparr>ticks := Suc (ticks example_world)\<rparr>))
       = Inr \<lparr>dataset = Some ''dados_formacao'', project = Some ''projeto'',
              tables = [(''professores'', \<lparr>tableName = ''professores'', table_fields = []\<rparr>)]\<rparr>
   \<and> clock example_world (ticks example_world) = 1000
   \<and> clock (snd (getSchema example_world)) (ticks (snd (getSchema example_world))) = 1001
   \<and> fst (getSchema (snd (getSchema example_world))) = fst (getSchema example_world)
   \<and> getTables_calls (snd (getSchema (snd (getSchema example_world)))) = 1"
proof -
  let ?s = "\<lparr>dataset = Some ''dados_formacao'', project = Some ''projeto'',
              tables = [(''professores'', \<lparr>tableName = ''professores'', table_fields = []\<rparr>)]\<rparr>"
  let ?w1 = "snd (getSchema example_world)"
  have miss: "\<not> schemaCacheValid (clock example_world (ticks example_world)) example_world"
    by (simp add: schemaCacheValid_def example_world_def)
  have fetch: "fst (getDatasetSchema (example_world\<lparr>ticks := Suc (ticks example_world)\<rparr>)) = Inr ?s"
    by (simp add: bigquery_defs io_defs example_world_def)
  have now1: "clock example_world (ticks example_world) = 1000"
    by (simp add: example_world_def)
  have now2: "clock ?w1 (ticks ?w1) = 1001"
    by (simp add: getSchema_def getSchema_refresh_def Date_now_def bigquery_defs io_defs
        example_world_def)
  have ttl: "clock ?w1 (ticks ?w1) - clock example_world (ticks example_world)
               < SCHEMA_CACHE_DURATION"
    by (simp add: now1 now2 SCHEMA_CACHE_DURATION_def)
  have nz: "clock example_world (ticks example_world) \<noteq> 0" by (simp add: now1)
  note r = getSchema_second_call_cached[OF miss pair_fst_snd[OF fetch] nz refl ttl]
  have calls: "getTables_calls example_world = 0" by (simp add: example_world_def)
  show ?thesis using miss fetch now1 now2 r calls by simp
qed

text \<open>
  The tables of the schema that \<open>getDatasetSchema\<close> returns when the listing succeeds
  (the \<open>i\<close>-th listed table is fetched by the \<open>i\<close>-th metadata call that follows): its
  keys are the listed tables whose fetch succeeded, except a table named \<open>__proto__\<close>,
  and each of them is mapped to the schema of its last successful fetch. A table whose
  fetch fails is left out and the function still returns.
\<close>

lemma getDatasetSchema_tables:
  assumes "listTables w = (Inr names, w1)"
  shows "\<exists>s w'. getDatasetSchema w = (Inr s, w')
           \<and> fst ` set (tables s) =
               {names ! i | i. i < length names \<and> names ! i \<noteq> proto_key
                  \<and> fetchedSchema w (getMetadata_calls w + i) (names ! i) \<noteq> None}
           \<and> (\<forall>i t. i < length names \<and> names ! i \<noteq> proto_key
                  \<and> fetchedSchema w (getMetadata_calls w + i) (names ! i) = Some t
                  \<and> (\<forall>j. i < j \<and> j < length names \<and> names ! j = names ! i \<longrightarrow>
                         fetchedSchema w (getMetadata_calls w + j) (names ! i) = None)
                  \<longrightarrow> map_of (tables s) (names ! i) = Some t)"
proof -
  have w1: "bigquery w1" "table_getMetadata w1 = table_getMetadata w"
    "getMetadata_calls w1 = getMetadata_calls w"
    using listTables_Inr[OF assms] by simp_all
  have same: "\<And>n name. fetchedSchema w1 n name = fetchedSchema w n name"
    using w1(2) by (simp add: fetchedSchema_def)
  let ?s = "\<lparr>dataset = BIGQUERY_DATASET (snd (collectSchemas names [] w1)),
             project = GCP_PROJECT_ID (snd (collectSchemas names [] w1)),
             tables = fst (collectSchemas names [] w1)\<rparr>"
  have result: "getDatasetSchema w = (Inr ?s, snd (collectSchemas names [] w1))"
    by (rule getDatasetSchema_Inr[OF assms])
  have keys: "fst ` set (tables ?s) =
               {names ! i | i. i < length names \<and> names ! i \<noteq> proto_key
                  \<and> fetchedSchema w (getMetadata_calls w + i) (names ! i) \<noteq> None}"
    using collectSchemas_keys[OF w1(1), of names "[]"] by (simp add: same w1(3))
  have vals: "\<forall>i t. i < length names \<and> names ! i \<noteq> proto_key
                  \<and> fetchedSchema w (getMetadata_calls w + i) (names ! i) = Some t
                  \<and> (\<forall>j. i < j \<and> j < length names \<and> names ! j = names ! i \<longrightarrow>
                         fetchedSchema w (getMetadata_calls w + j) (names ! i) = None)
                  \<longrightarrow> map_of (tables ?s) (names ! i) = Some t"
  proof (intro allI impI)
    fix i t
    assume h: "i < length names \<and> names ! i \<noteq> proto_key
                  \<and> fetchedSchema w (getMetadata_calls w + i) (names ! i) = Some t
                  \<and> (\<forall>j. i < j \<and> j < length names \<and> names ! j = names ! i \<longrightarrow>
                         fetchedSchema w (getMetadata_calls w + j) (names ! i) = None)"
    have "map_of (fst (collectSchemas names [] w1)) (names ! i) = Some t"
      by (rule collectSchemas_last_fetch[OF w1(1)]) (use h in \<open>simp_all add: same w1(3)\<close>)
    then show "map_of (tables ?s) (names ! i) = Some t" by simp
  qed
  show ?thesis
  proof (intro exI conjI)
    show "getDatasetSchema w = (Inr ?s, snd (collectSchemas names [] w1))" by (rule result)
    show "fst ` set (tables ?s) =
               {names ! i | i. i < length names \<and> names ! i \<noteq> proto_key
                  \<and> fetchedSchema w (getMetadata_calls w + i) (names ! i) \<noteq> None}"
      by (rule keys)
    show "\<forall>i t. i < length names \<and> names ! i \<noteq> proto_key
                  \<and> fetchedSchema w (getMetadata_calls w + i) (names ! i) = Some t
                  \<and> (\<forall>j. i < j \<and> j < length names \<and> names ! j = names ! i \<longrightarrow>
                         fetchedSchema w (getMetadata_calls w + j) (names ! i) = None)
                  \<longrightarrow> map_of (tables ?s) (names ! i) = Some t"
      by (rule vals)
  qed
qed

text \<open>
  C8 fails on the code for a table named \<open>__proto__\<close>, a name that the listing of a
  dataset can return. The dataset of \<^const>\<open>proto_world\<close> lists \<open>professores\<close>,
  \<open>__proto__\<close> and \<open>notas\<close>; the fetches of the first two succeed and that of \<open>notas\<close>
  throws. \<open>getDatasetSchema\<close> returns, as C8 says, but the tables of its schema are
  \<open>professores\<close> alone: \<open>schemas['__proto__'] = ...\<close> has set the prototype of \<open>schemas\<close>
  and created no key, so a table whose fetch succeeded is missing.
\<close>

theorem getDatasetSchema_loses_proto_table:
  "fst (listTables proto_world) = Inr [''professores'', ''__proto__'', ''notas'']
   \<and> fetchedSchema proto_world 0 ''professores''
       = Some \<lparr>tableName = ''professores'', table_fields = []\<rparr>
   \<and> fetchedSchema proto_world 1 ''__proto__''
       = Some \<lparr>tableName = ''__proto__'', table_fields = []\<rparr>
   \<and> fetchedSchema proto_world 2 ''notas'' = None
   \<and> fst (getDatasetSchema proto_world)
       = Inr \<lparr>dataset = Some ''dados_formacao'', project = Some ''projeto'',
              tables = [(''professores'', \<lparr>tableName = ''professores'', table_fields = []\<rparr>)]\<rparr>"
  by (simp add: bigquery_defs fetchedSchema_def io_defs proto_world_def example_world_def)

section \<open>The classifier\<close>

text \<open>
  C9, as stated, fails: the fallback is computed in the \<open>catch\<close> handler only. A reply
  that \<open>JSON.parse\<close> reads without an error, such as the empty object, is not the
  expected JSON and reaches no handler: \<open>json.requires_db === true\<close> is \<open>false\<close>, for a
  question of 20 characters for which both fallbacks give \<open>true\<close>. In the earlier
  revision a reply that is neither \<open>SIM\<close> nor \<open>NAO\<close>, such as \<open>talvez\<close>, gives \<open>false\<close>
  as well.
\<close>

theorem requiresDatabaseQuery_no_fallback_counterexample:
  "JSON_parse empty_object_world ''{}'' = Inr (JObj [])
   \<and> 10 < length ''Quantos professores?''
   \<and> fst (requiresDatabaseQuery ''Quantos professores?'' empty_object_world) = Inr False
   \<and> fst (requiresDatabaseQuery_v1 ''Quantos professores?'' (answering_world ''talvez''))
       = Inr False"
  by (simp add: requiresDatabaseQuery_def requiresDatabaseQuery_try_def requires_db_def
      requiresDatabaseQuery_v1_def io_defs world_defs gemini_defs string_defs
      empty_object_world_def Let_def)

text \<open>
  C9 (amended). \<open>requiresDatabaseQuery\<close> never throws, in either revision. In the
  current module it returns the message-length heuristic \<open>userQuestion.length > 10\<close>
  when an error is raised: when the selection of the model fails, the LLM call fails,
  \<open>JSON.parse\<close> throws on the reply, or the reply is the JSON \<open>null\<close> (on which the
  property access throws). A reply that parses to any other JSON value raises no
  error and is answered without the fallback: \<open>true\<close> when the value is an object whose
  \<open>requires_db\<close> is \<open>true\<close>, and \<open>false\<close> otherwise. In the earlier revision a failing LLM
  call gives \<open>true\<close>, and a reply gives whether its trimmed, upper-cased text contains
  \<open>SIM\<close>.
\<close>

theorem requiresDatabaseQuery_falls_back:
  "(\<exists>b w'. requiresDatabaseQuery q w = (Inr b, w'))
   \<and> (\<forall>e w1. getModelName w = (Inl e, w1) \<longrightarrow>
         requiresDatabaseQuery q w = (Inr (10 < length q), w1))
   \<and> (\<forall>m w1 e w2. getModelName w = (Inr m, w1)
         \<and> generateContent (Request m (Classify_prompt q)) w1 = (Inl e, w2) \<longrightarrow>
         requiresDatabaseQuery q w = (Inr (10 < length q), w2))
   \<and> (\<forall>m w1 text w2. getModelName w = (Inr m, w1)
         \<and> generateContent (Request m (Classify_prompt q)) w1 = (Inr text, w2)
         \<and> (isl (JSON_parse w2 text) \<or> JSON_parse w2 text = Inr JNull) \<longrightarrow>
         requiresDatabaseQuery q w = (Inr (10 < length q), w2))
   \<and> (\<forall>m w1 text w2 j. getModelName w = (Inr m, w1)
         \<and> generateContent (Request m (Classify_prompt q)) w1 = (Inr text, w2)
         \<and> JSON_parse w2 text = Inr j \<and> j \<noteq> JNull \<longrightarrow>
         requiresDatabaseQuery q w =
           (Inr (case j of JObj props \<Rightarrow> map_of props ''requires_db'' = Some (JBool True)
                         | _ \<Rightarrow> False), w2))
   \<and> (\<exists>b w'. requiresDatabaseQuery_v1 q w = (Inr b, w'))
   \<and> (\<forall>e w1. generateContent (Request ''gemini-pro'' (Classify_prompt_v1 q)) w = (Inl e, w1) \<longrightarrow>
         requiresDatabaseQuery_v1 q w = (Inr True, w1))
   \<and> (\<forall>text w1. generateContent (Request ''gemini-pro'' (Classify_prompt_v1 q)) w = (Inr text, w1) \<longrightarrow>
         requiresDatabaseQuery_v1 q w = (Inr (includesStr (toUpperCase (trim text)) ''SIM''), w1))"
proof -
  have 1: "\<exists>b w'. requiresDatabaseQuery q w = (Inr b, w')"
    by (rule requiresDatabaseQuery_total)
  have 2: "\<forall>e w1. getModelName w = (Inl e, w1) \<longrightarrow>
         requiresDatabaseQuery q w = (Inr (10 < length q), w1)"
    by (blast intro: requiresDatabaseQuery_try_Inl requiresDatabaseQuery_try_model_fails)
  have 3: "\<forall>m w1 e w2. getModelName w = (Inr m, w1)
         \<and> generateContent (Request m (Classify_prompt q)) w1 = (Inl e, w2) \<longrightarrow>
         requiresDatabaseQuery q w = (Inr (10 < length q), w2)"
    by (blast intro: requiresDatabaseQuery_try_Inl requiresDatabaseQuery_try_call_fails)
  have 4: "\<forall>m w1 reply w2. getModelName w = (Inr m, w1)
         \<and> generateContent (Request m (Classify_prompt q)) w1 = (Inr reply, w2)
         \<and> (isl (JSON_parse w2 reply) \<or> JSON_parse w2 reply = Inr JNull) \<longrightarrow>
         requiresDatabaseQuery q w = (Inr (10 < length q), w2)"
  proof (intro allI impI)
    fix m w1 reply w2
    assume h: "getModelName w = (Inr m, w1)
         \<and> generateContent (Request m (Classify_prompt q)) w1 = (Inr reply, w2)
         \<and> (isl (JSON_parse w2 reply) \<or> JSON_parse w2 reply = Inr JNull)"
    then obtain e where "requiresDatabaseQuery_try q w = (Inl e, w2)"
      using requiresDatabaseQuery_try_parse_fails[of w m w1 q reply w2] by blast
    then show "requiresDatabaseQuery q w = (Inr (10 < length q), w2)"
      by (rule requiresDatabaseQuery_try_Inl)
  qed
  have 5: "\<forall>m w1 reply w2 j. getModelName w = (Inr m, w1)
         \<and> generateContent (Request m (Classify_prompt q)) w1 = (Inr reply, w2)
         \<and> JSON_parse w2 reply = Inr j \<and> j \<noteq> JNull \<longrightarrow>
         requiresDatabaseQuery q w =
           (Inr (case j of JObj props \<Rightarrow> map_of props ''requires_db'' = Some (JBool True)
                         | _ \<Rightarrow> False), w2)"
    using requiresDatabaseQuery_parsed[of w _ _ q] by blast
  have 6: "\<exists>b w'. requiresDatabaseQuery_v1 q w = (Inr b, w')"
    by (rule requiresDatabaseQuery_v1_total)
  have 7: "\<forall>e w1. generateContent (Request ''gemini-pro'' (Classify_prompt_v1 q)) w = (Inl e, w1) \<longrightarrow>
         requiresDatabaseQuery_v1 q w = (Inr True, w1)"
    by (blast intro: requiresDatabaseQuery_v1_call_fails)
  have 8: "\<forall>reply w1. generateContent (Request ''gemini-pro'' (Classify_prompt_v1 q)) w = (Inr reply, w1) \<longrightarrow>
         requiresDatabaseQuery_v1 q w = (Inr (includesStr (toUpperCase (trim reply)) ''SIM''), w1)"
    by (blast intro: requiresDatabaseQuery_v1_reply)
  show ?thesis using 1 2 3 4 5 6 7 8 by (intro conjI)
qed

theorem requiresDatabaseQuery_falls_back_witness:
  "fst (getModelName example_world) = Inl noModel_message
   \<and> fst (requiresDatabaseQuery ''Quantos professores?'' example_world) = Inr True
   \<and> fst (requiresDatabaseQuery ''Obrigado!'' example_world) = Inr False
   \<and> fst (getModelName failing_after_probe_world) = Inr ''gemini-2.5-flash-lite''
   \<and> fst (requiresDatabaseQuery ''Quantos professores?'' failing_after_probe_world) = Inr True
   \<and> fst (getModelName (answering_world ''talvez'')) = Inr ''gemini-2.5-flash-lite''
   \<and> isl (JSON_parse (answering_world ''talvez'') ''talvez'')
   \<and> fst (requiresDatabaseQuery ''Quantos professores?'' (answering_world ''talvez'')) = Inr True
   \<and> JSON_parse empty_object_world ''{}'' = Inr (JObj [])
   \<and> fst (requiresDatabaseQuery ''Quantos professores?'' empty_object_world) = Inr False
   \<and> fst (generateContent (Request ''gemini-pro'' (Classify_prompt_v1 ''Obrigado!'')) example_world)
       = Inl ''503 Service Unavailable''
   \<and> fst (requiresDatabaseQuery_v1 ''Obrigado!'' example_world) = Inr True
   \<and> fst (requiresDatabaseQuery_v1 ''Quantos professores?'' (answering_world ''Sim.'')) = Inr True
   \<and> fst (requiresDatabaseQuery_v1 ''Quantos professores?'' (answering_world ''talvez''))
       = Inr False"
proof -
  let ?long = "''Quantos professores?''"
  let ?short = "''Obrigado!''"
  let ?aw = "answering_world ''talvez''"
  let ?fw = "failing_after_probe_world"
  let ?ow = "empty_object_world"
  let ?model = "''gemini-2.5-flash-lite''"
  have a: "fst (getModelName example_world) = Inl noModel_message"
    by (simp add: io_defs world_defs gemini_defs)
  note fb = requiresDatabaseQuery_falls_back[THEN conjunct2, THEN conjunct1, rule_format,
      OF pair_fst_snd[OF a]]
  have r1: "fst (requiresDatabaseQuery ?long example_world) = Inr True"
    using fb[of ?long] by simp
  have r2: "fst (requiresDatabaseQuery ?short example_world) = Inr False"
    using fb[of ?short] by simp

  have f1: "fst (getModelName ?fw) = Inr ?model"
    by (simp add: io_defs world_defs gemini_defs failing_after_probe_world_def)
  have f2: "fst (generateContent (Request ?model (Classify_prompt ?long)) (snd (getModelName ?fw)))
             = Inl ''503 Service Unavailable''"
    by (simp add: io_defs world_defs gemini_defs failing_after_probe_world_def)
  have fh: "getModelName ?fw = (Inr ?model, snd (getModelName ?fw))
         \<and> generateContent (Request ?model (Classify_prompt ?long)) (snd (getModelName ?fw))
             = (Inl ''503 Service Unavailable'',
                snd (generateContent (Request ?model (Classify_prompt ?long))
                       (snd (getModelName ?fw))))"
    using pair_fst_snd[OF f1] pair_fst_snd[OF f2] by (intro conjI)
  have r5: "fst (requiresDatabaseQuery ?long ?fw) = Inr True"
    using requiresDatabaseQuery_falls_back[of ?long ?fw, THEN conjunct2, THEN conjunct2,
        THEN conjunct1, rule_format, OF fh]
    by simp

  have b: "fst (getModelName ?aw) = Inr ?model"
    by (simp add: io_defs world_defs gemini_defs)
  let ?w1 = "snd (getModelName ?aw)"
  have c: "fst (generateContent (Request ?model (Classify_prompt ?long)) ?w1) = Inr ''talvez''"
    by (simp add: io_defs world_defs gemini_defs)
  let ?w2 = "snd (generateContent (Request ?model (Classify_prompt ?long)) ?w1)"
  have d: "isl (JSON_parse ?w2 ''talvez'')"
    by (simp add: io_defs world_defs gemini_defs)
  have d': "isl (JSON_parse ?aw ''talvez'')"
    by (simp add: world_defs)
  have h: "getModelName ?aw = (Inr ?model, ?w1)
         \<and> generateContent (Request ?model (Classify_prompt ?long)) ?w1 = (Inr ''talvez'', ?w2)
         \<and> (isl (JSON_parse ?w2 ''talvez'') \<or> JSON_parse ?w2 ''talvez'' = Inr JNull)"
    using pair_fst_snd[OF b] pair_fst_snd[OF c] d by (intro conjI disjI1)
  have r3: "fst (requiresDatabaseQuery ?long ?aw) = Inr True"
    using requiresDatabaseQuery_falls_back[of ?long ?aw, THEN conjunct2, THEN conjunct2,
        THEN conjunct2, THEN conjunct1, rule_format, OF h]
    by simp

  have o1: "fst (getModelName ?ow) = Inr ?model"
    by (simp add: io_defs world_defs gemini_defs empty_object_world_def)
  let ?o1 = "snd (getModelName ?ow)"
  have o2: "fst (generateContent (Request ?model (Classify_prompt ?long)) ?o1) = Inr ''{}''"
    by (simp add: io_defs world_defs gemini_defs empty_object_world_def)
  let ?o2 = "snd (generateContent (Request ?model (Classify_prompt ?long)) ?o1)"
  have o3: "JSON_parse ?o2 ''{}'' = Inr (JObj [])"
    by (simp add: io_defs world_defs gemini_defs empty_object_world_def)
  have o3': "JSON_parse ?ow ''{}'' = Inr (JObj [])"
    by (simp add: world_defs empty_object_world_def)
  have oh: "getModelName ?ow = (Inr ?model, ?o1)
         \<and> generateContent (Request ?model (Classify_prompt ?long)) ?o1 = (Inr ''{}'', ?o2)
         \<and> JSON_parse ?o2 ''{}'' = Inr (JObj []) \<and> JObj [] \<noteq> JNull"
    using pair_fst_snd[OF o1] pair_fst_snd[OF o2] o3 by (intro conjI) simp_all
  have r6: "fst (requiresDatabaseQuery ?long ?ow) = Inr False"
    using requiresDatabaseQuery_falls_back[of ?long ?ow, THEN conjunct2, THEN conjunct2,
        THEN conjunct2, THEN conjunct2, THEN conjunct1, rule_format, OF oh]
    by simp

  have e: "fst (generateContent (Request ''gemini-pro'' (Classify_prompt_v1 ?short)) example_world)
       = Inl ''503 Service Unavailable''"
    by (simp add: io_defs world_defs gemini_defs)
  have r4: "fst (requiresDatabaseQuery_v1 ?short example_world) = Inr True"
    using requiresDatabaseQuery_falls_back[of ?short example_world, THEN conjunct2, THEN conjunct2,
        THEN conjunct2, THEN conjunct2, THEN conjunct2, THEN conjunct2, THEN conjunct1,
        rule_format, OF pair_fst_snd[OF e]]
    by simp

  have s1: "fst (generateContent (Request ''gemini-pro'' (Classify_prompt_v1 ?long))
                   (answering_world ''Sim.'')) = Inr ''Sim.''"
    by (simp add: io_defs world_defs gemini_defs)
  have r7: "fst (requiresDatabaseQuery_v1 ?long (answering_world ''Sim.'')) = Inr True"
    using requiresDatabaseQuery_falls_back[of ?long "answering_world ''Sim.''", THEN conjunct2,
        THEN conjunct2, THEN conjunct2, THEN conjunct2, THEN conjunct2, THEN conjunct2,
        THEN conjunct2, rule_format, OF pair_fst_snd[OF s1]]
    by (simp add: string_defs)
  have s2: "fst (generateContent (Request ''gemini-pro'' (Classify_prompt_v1 ?long)) ?aw)
              = Inr ''talvez''"
    by (simp add: io_defs world_defs gemini_defs)
  have r8: "fst (requiresDatabaseQuery_v1 ?long ?aw) = Inr False"
    using requiresDatabaseQuery_falls_back[of ?long ?aw, THEN conjunct2,
        THEN conjunct2, THEN conjunct2, THEN conjunct2, THEN conjunct2, THEN conjunct2,
        THEN conjunct2, rule_format, OF pair_fst_snd[OF s2]]
    by (simp add: string_defs)
  show ?thesis using a r1 r2 f1 r5 b d' r3 o3' r6 e r4 r7 r8 by (intro conjI)
qed

section \<open>The refusal of the model\<close>

text \<open>
  C10. In the current module \<open>generateSQLQuery\<close> never returns an empty string or a
  string that starts with \<open>ERRO\<close>: when the cleaned reply of the model is one, it throws
  the error \<^const>\<open>noValidQuery_message\<close> behind \<open>Erro ao gerar query:\<close>. Hence no outcome
  of \<open>processMessage\<close> has \<open>type = "error"\<close>, and a refusal of the model is returned as
  the outcome of the handler, \<^const>\<open>processMessage_catch\<close>, with the thrown message
  in \<open>error\<close>.
\<close>

theorem generateSQLQuery_refusal_is_thrown:
  "(\<forall>s w'. generateSQLQuery q schema w = (Inr s, w') \<longrightarrow> s \<noteq> [] \<and> \<not> startsWith s ''ERRO'')
   \<and> (\<forall>m w1 text w2. getModelName w = (Inr m, w1)
         \<and> generateContent (Request m (SQL_prompt (compactSchema schema) q)) w1 = (Inr text, w2)
         \<and> (cleanSQL text = [] \<or> startsWith (cleanSQL text) ''ERRO'') \<longrightarrow>
         generateSQLQuery q schema w =
           (Inl (''Erro ao gerar query: '' @ noValidQuery_message (cleanSQL text)), w2))
   \<and> (\<forall>out. fst (processMessage q schema exec w) = Inr out \<longrightarrow> o_type out \<noteq> Val Error)
   \<and> (\<forall>e w1 w2. requiresDatabaseQuery q w = (Inr True, w1)
         \<and> generateSQLQuery q schema w1 = (Inl e, w2) \<longrightarrow>
         processMessage q schema exec w = (Inr (processMessage_catch e), w2))"
proof -
  have 1: "\<forall>s w'. generateSQLQuery q schema w = (Inr s, w') \<longrightarrow>
             s \<noteq> [] \<and> \<not> startsWith s ''ERRO''"
    using generateSQLQuery_no_sentinel[of q schema w] by blast
  have 2: "\<forall>m w1 reply w2. getModelName w = (Inr m, w1)
         \<and> generateContent (Request m (SQL_prompt (compactSchema schema) q)) w1 = (Inr reply, w2)
         \<and> (cleanSQL reply = [] \<or> startsWith (cleanSQL reply) ''ERRO'') \<longrightarrow>
         generateSQLQuery q schema w =
           (Inl (''Erro ao gerar query: '' @ noValidQuery_message (cleanSQL reply)), w2)"
    using generateSQLQuery_refusal[of w _ _ schema q] by blast
  have 3: "\<forall>out. fst (processMessage q schema exec w) = Inr out \<longrightarrow> o_type out \<noteq> Val Error"
    using processMessage_not_Error[of q schema exec w] by blast
  have 4: "\<forall>e w1 w2. requiresDatabaseQuery q w = (Inr True, w1)
         \<and> generateSQLQuery q schema w1 = (Inl e, w2) \<longrightarrow>
         processMessage q schema exec w = (Inr (processMessage_catch e), w2)"
    using processMessage_generation_fails[of q w _ schema _ _ exec] by blast
  show ?thesis using 1 2 3 4 by (intro conjI)
qed

theorem generateSQLQuery_refusal_is_thrown_witness:
  "fst (requiresDatabaseQuery ''Quantos professores?'' (answering_world ''ERRO: sem dados''))
     = Inr True
   \<and> fst (generateSQLQuery ''Quantos professores?'' example_schema
            (snd (requiresDatabaseQuery ''Quantos professores?''
                    (answering_world ''ERRO: sem dados''))))
       = Inl (''Erro ao gerar query: IA n'' @ a_tilde @ ''o conseguiu gerar query v'' @ a_acute
              @ ''lida: ERRO: sem dados'')
   \<and> fst (processMessage ''Quantos professores?'' example_schema executeQuery
            (answering_world ''ERRO: sem dados''))
       = Inr \<lparr>o_success = False, o_message = ''Erro interno ao processar IA.'', o_sql = Absent,
              o_data = Absent, o_type = Absent,
              o_error = Val (''Erro ao gerar query: IA n'' @ a_tilde
                             @ ''o conseguiu gerar query v'' @ a_acute
                             @ ''lida: ERRO: sem dados'')\<rparr>"
proof -
  let ?q = "''Quantos professores?''"
  let ?w = "answering_world ''ERRO: sem dados''"
  let ?w1 = "snd (requiresDatabaseQuery ?q ?w)"
  let ?e = "''Erro ao gerar query: IA n'' @ a_tilde @ ''o conseguiu gerar query v'' @ a_acute
              @ ''lida: ERRO: sem dados''"
  have a: "fst (requiresDatabaseQuery ?q ?w) = Inr True"
    by (simp add: stage_defs io_defs world_defs gemini_defs)
  have b: "fst (generateSQLQuery ?q example_schema ?w1) = Inl ?e"
    by (simp add: stage_defs io_defs world_defs gemini_defs string_defs Let_def)
  have h: "requiresDatabaseQuery ?q ?w = (Inr True, ?w1)
         \<and> generateSQLQuery ?q example_schema ?w1
             = (Inl ?e, snd (generateSQLQuery ?q example_schema ?w1))"
    using pair_fst_snd[OF a] pair_fst_snd[OF b] by (intro conjI)
  have "processMessage ?q example_schema executeQuery ?w
          = (Inr (processMessage_catch ?e), snd (generateSQLQuery ?q example_schema ?w1))"
    by (rule generateSQLQuery_refusal_is_thrown[of ?q example_schema ?w executeQuery,
          THEN conjunct2, THEN conjunct2, THEN conjunct2, rule_format, OF h])
  then have "fst (processMessage ?q example_schema executeQuery ?w)
          = Inr (processMessage_catch ?e)"
    by (rule arg_cong[where f = fst, THEN trans]) simp
  then show ?thesis using a b by (simp only: processMessage_catch_def simp_thms)
qed

end
